theory Spec2Isabelle
  imports Main "HOL-Library.AList" "HOL-Library.Char_ord" "HOL-Library.List_Lexorder"
    "HOL-Library.Sublist"
begin

section \<open>Bytes, strings and Go's machine integers\<close>

text \<open>
  A Go \<^verbatim>\<open>string\<close> and a \<^verbatim>\<open>[]byte\<close> are byte sequences; both are \<^typ>\<open>string\<close> here
  (a list of 8-bit characters). Strings are compared byte by byte, as Go and the
  ledger's key-value database do (\<^theory_text>\<open>List_Lexorder\<close> over \<^theory_text>\<open>Char_ord\<close>).

  Go's \<^verbatim>\<open>int\<close> is taken as 64 bits wide, two's complement: every platform a
  Fabric peer runs chaincode on is a 64-bit one. Values are \<^typ>\<open>int\<close>, and every
  addition and subtraction of the source goes through \<open>int64\<close>, which wraps.
\<close>

type_synonym bytes = string

abbreviation byte :: "char \<Rightarrow> nat" where
  "byte c \<equiv> of_char c"

definition backslash :: char where
  "backslash = CHR 0x5C"

definition dquote :: char where
  "dquote = CHR 0x22"

definition NUL :: char where
  "NUL = CHR 0x00"

definition int64 :: "int \<Rightarrow> int" where
  "int64 x = (x + 2 ^ 63) mod 2 ^ 64 - 2 ^ 63"

subsection \<open>strconv\<close>

definition isDigit :: "char \<Rightarrow> bool" where
  "isDigit c = (48 \<le> byte c \<and> byte c \<le> 57)"

definition digitsValue :: "string \<Rightarrow> nat" where
  "digitsValue ds = foldl (\<lambda>n c. n * 10 + (byte c - 48)) 0 ds"

text \<open>\<^verbatim>\<open>strconv.ParseUint(s, 10, 64)\<close>: one or more decimal digits, no sign, a value
  below \<open>2^64\<close>; anything else is an error.\<close>

definition ParseUint :: "string \<Rightarrow> nat option" where
  "ParseUint s =
     (if s = [] then None
      else if list_all isDigit s then
        (if 2 ^ 64 \<le> digitsValue s then None else Some (digitsValue s))
      else None)"

text \<open>\<^verbatim>\<open>strconv.Atoi(s)\<close>: an optional sign, then one or more decimal digits, a
  value that fits a 64-bit \<^verbatim>\<open>int\<close>; anything else (the empty string too) is an
  error.\<close>

definition Atoi :: "string \<Rightarrow> int option" where
  "Atoi s =
     (case s of
        [] \<Rightarrow> None
      | c # cs \<Rightarrow>
          let ds = (if c = CHR ''-'' \<or> c = CHR ''+'' then cs else s) in
          if ds = [] then None
          else if list_all isDigit ds then
            (let n = (if c = CHR ''-'' then - int (digitsValue ds) else int (digitsValue ds)) in
             if n < - (2 ^ 63) \<or> 2 ^ 63 \<le> n then None else Some n)
          else None)"

fun FormatUint :: "nat \<Rightarrow> string" where
  "FormatUint n =
     (if n < 10 then [''0123456789'' ! n]
      else FormatUint (n div 10) @ [''0123456789'' ! (n mod 10)])"

declare FormatUint.simps [simp del]

definition Itoa :: "int \<Rightarrow> string" where
  "Itoa i = (if i < 0 then CHR ''-'' # FormatUint (nat (- i)) else FormatUint (nat i))"

subsection \<open>unicode/utf8\<close>

definition RuneError :: nat where
  "RuneError = 0xFFFD"

definition MaxRune :: nat where
  "MaxRune = 0x10FFFF"

text \<open>\<^verbatim>\<open>utf8.DecodeRuneInString\<close>: the first code point of the string and the number
  of bytes it takes; a malformed or truncated sequence is \<open>(RuneError, 1)\<close>.\<close>

fun DecodeRuneInString :: "string \<Rightarrow> nat \<times> nat" where
  "DecodeRuneInString [] = (RuneError, 0)"
| "DecodeRuneInString (c # rest) =
     (let s0 = byte c in
      if s0 < 0x80 then (s0, 1)
      else if s0 < 0xC2 \<or> 0xF4 < s0 then (RuneError, 1)
      else
        let sz = (if s0 < 0xE0 then 2 else if s0 < 0xF0 then 3 else 4 :: nat);
            lo = (if s0 = 0xE0 then 0xA0 else if s0 = 0xF0 then 0x90 else 0x80);
            hi = (if s0 = 0xED then 0x9F else if s0 = 0xF4 then 0x8F else 0xBF)
        in
        if length rest + 1 < sz then (RuneError, 1)
        else
          let s1 = byte (rest ! 0) in
          if s1 < lo \<or> hi < s1 then (RuneError, 1)
          else if sz \<le> 2 then ((s0 mod 32) * 64 + s1 mod 64, 2)
          else
            let s2 = byte (rest ! 1) in
            if s2 < 0x80 \<or> 0xBF < s2 then (RuneError, 1)
            else if sz \<le> 3 then ((s0 mod 16) * 4096 + (s1 mod 64) * 64 + s2 mod 64, 3)
            else
              let s3 = byte (rest ! 2) in
              if s3 < 0x80 \<or> 0xBF < s3 then (RuneError, 1)
              else ((s0 mod 8) * 262144 + (s1 mod 64) * 4096 + (s2 mod 64) * 64 + s3 mod 64, 4))"

lemma DecodeRuneInString_size:
  "1 \<le> snd (DecodeRuneInString (c # cs)) \<and> snd (DecodeRuneInString (c # cs)) \<le> 4"
  by (simp add: Let_def)

text \<open>The code points of a string with their widths, as a \<^verbatim>\<open>for range\<close> loop over
  the string visits them.\<close>

function runes :: "string \<Rightarrow> (nat \<times> nat) list" where
  "runes [] = []"
| "runes (c # cs) =
     DecodeRuneInString (c # cs) # runes (drop (snd (DecodeRuneInString (c # cs))) (c # cs))"
  by pat_completeness auto
termination
proof (relation "measure length")
  show "wf (measure length)" by simp
next
  fix c :: char and cs :: string
  have "1 \<le> snd (DecodeRuneInString (c # cs))"
    using DecodeRuneInString_size by blast
  then show "(drop (snd (DecodeRuneInString (c # cs))) (c # cs), c # cs) \<in> measure length"
    by simp
qed

definition ValidString :: "string \<Rightarrow> bool" where
  "ValidString s = list_all (\<lambda>(r, sz). \<not> (r = RuneError \<and> sz = 1)) (runes s)"

text \<open>\<^verbatim>\<open>utf8.EncodeRune\<close>: the UTF-8 bytes of a code point, those of U+FFFD for a
  surrogate or a number beyond U+10FFFF.\<close>

definition EncodeRune :: "nat \<Rightarrow> string" where
  "EncodeRune r =
     (if r < 0x80 then [char_of r]
      else if r < 0x800 then [char_of (0xC0 + r div 64), char_of (0x80 + r mod 64)]
      else if (0xD800 \<le> r \<and> r < 0xE000) \<or> MaxRune < r
        then [CHR 0xEF, CHR 0xBF, CHR 0xBD]
      else if r < 0x10000
        then [char_of (0xE0 + r div 4096), char_of (0x80 + (r div 64) mod 64),
              char_of (0x80 + r mod 64)]
      else [char_of (0xF0 + r div 262144), char_of (0x80 + (r div 4096) mod 64),
            char_of (0x80 + (r div 64) mod 64), char_of (0x80 + r mod 64)])"

declare DecodeRuneInString.simps [simp del]

declare runes.simps [simp del]

subsection \<open>encoding/json: marshalling\<close>

text \<open>
  \<^verbatim>\<open>json.Marshal\<close> writes a Go string between double quotes. ASCII bytes are
  copied, except the double quote, the backslash, the control characters and (as
  \<^verbatim>\<open>Marshal\<close> escapes HTML) \<^verbatim>\<open><\<close>, \<^verbatim>\<open>>\<close> and \<^verbatim>\<open>&\<close>, which are escaped; a byte that
  is not valid UTF-8 becomes the escape of U+FFFD; U+2028 and U+2029 are escaped; every other
  code point is copied. Marshalling the three structs of the program cannot fail.
  (Control characters other than the newline, the carriage return and the tab are
  written as \<^verbatim>\<open>u00XX\<close> escapes, as the Go releases of Fabric 1.x do.)
\<close>

definition htmlSafe :: "nat \<Rightarrow> bool" where
  "htmlSafe b = (0x20 \<le> b \<and> b < 0x80 \<and> b \<noteq> 0x22 \<and> b \<noteq> 0x26 \<and> b \<noteq> 0x3C \<and> b \<noteq> 0x3E \<and> b \<noteq> 0x5C)"

definition hex :: "nat \<Rightarrow> char" where
  "hex n = ''0123456789abcdef'' ! n"

function encodeString :: "string \<Rightarrow> string" where
  "encodeString [] = []"
| "encodeString (c # cs) =
     (let b = byte c in
      if b < 0x80 then
        (if htmlSafe b then [c]
         else if b = 0x5C \<or> b = 0x22 then [backslash, c]
         else if b = 0x0A then [backslash, CHR ''n'']
         else if b = 0x0D then [backslash, CHR ''r'']
         else if b = 0x09 then [backslash, CHR ''t'']
         else [backslash] @ ''u00'' @ [hex (b div 16), hex (b mod 16)])
        @ encodeString cs
      else
        let r = fst (DecodeRuneInString (c # cs));
            size = snd (DecodeRuneInString (c # cs))
        in
        if r = RuneError \<and> size = 1 then [backslash] @ ''ufffd'' @ encodeString cs
        else if r = 0x2028 \<or> r = 0x2029 then
          [backslash] @ ''u202'' @ [hex (r mod 16)] @ encodeString (drop size (c # cs))
        else take size (c # cs) @ encodeString (drop size (c # cs)))"
  by pat_completeness auto
termination
proof (relation "measure length")
  show "wf (measure length)" by simp
next
  fix c :: char and cs :: string
  show "(cs, c # cs) \<in> measure length" by simp
next
  fix c :: char and cs :: string
  show "(cs, c # cs) \<in> measure length" by simp
next
  fix c :: char and cs :: string and r size :: nat
  assume "size = snd (DecodeRuneInString (c # cs))"
  moreover have "1 \<le> snd (DecodeRuneInString (c # cs))"
    using DecodeRuneInString_size by blast
  ultimately show "(drop size (c # cs), c # cs) \<in> measure length"
    by simp
next
  fix c :: char and cs :: string and r size :: nat
  assume "size = snd (DecodeRuneInString (c # cs))"
  moreover have "1 \<le> snd (DecodeRuneInString (c # cs))"
    using DecodeRuneInString_size by blast
  ultimately show "(drop size (c # cs), c # cs) \<in> measure length"
    by simp
qed

declare encodeString.simps [simp del]

definition jsonString :: "string \<Rightarrow> string" where
  "jsonString s = [dquote] @ encodeString s @ [dquote]"

definition jsonKey :: "string \<Rightarrow> string" where
  "jsonKey k = [dquote] @ k @ [dquote] @ '':''"

subsection \<open>encoding/json: the scanner\<close>

text \<open>
  \<^verbatim>\<open>json.Unmarshal\<close> first checks that its input is one JSON value, with the scanner
  of \<^verbatim>\<open>scanner.go\<close>: a state machine that reads one byte at a time and keeps a stack
  of the objects and arrays it is inside. The states and their transitions are the
  scanner's; the scan codes it returns are not needed here. An error is the state
  \<open>StError\<close> with the message of the \<^verbatim>\<open>SyntaxError\<close> in \<open>scanErr\<close>: "invalid character",
  the offending byte as \<^verbatim>\<open>quoteChar\<close> writes it, and where the scanner was. (The
  nesting limit of later Go versions is not part of it.)
\<close>

datatype scanStep =
    StBeginValueOrEmpty | StBeginValue | StBeginStringOrEmpty | StBeginString
  | StEndValue | StEndTop
  | StInString | StInStringEsc | StInStringEscU | StInStringEscU1 | StInStringEscU12
  | StInStringEscU123
  | StNeg | St1 | St0 | StDot | StDot0 | StE | StESign | StE0
  | StT | StTr | StTru | StF | StFa | StFal | StFals | StN | StNu | StNul
  | StError

datatype parseKind = parseObjectKey | parseObjectValue | parseArrayValue

record scanner =
  step :: scanStep
  parseState :: "parseKind list"
  endTop :: bool
  scanErr :: "string option"

definition isSpace :: "char \<Rightarrow> bool" where
  "isSpace c = (byte c = 0x20 \<or> byte c = 0x09 \<or> byte c = 0x0D \<or> byte c = 0x0A)"

definition isHex :: "char \<Rightarrow> bool" where
  "isHex c = (isDigit c \<or> (0x61 \<le> byte c \<and> byte c \<le> 0x66) \<or> (0x41 \<le> byte c \<and> byte c \<le> 0x46))"

text \<open>
  \<^verbatim>\<open>quoteChar\<close> writes a byte between single quotes, as \<^verbatim>\<open>strconv.Quote\<close> writes the
  code point of that number: printable characters as they are (those from U+00A1 on
  in UTF-8), the backslash doubled, the usual control characters by their letter,
  the other ones below U+0020 as \<^verbatim>\<open>xHH\<close> escapes and the remaining ones as \<^verbatim>\<open>u00HH\<close>
  escapes.
\<close>

definition quoteRune :: "char \<Rightarrow> string" where
  "quoteRune c =
     (let b = byte c in
      if b = 0x5C then [backslash, backslash]
      else if 0x20 \<le> b \<and> b < 0x7F then [c]
      else if 0xA1 \<le> b \<and> b \<noteq> 0xAD then EncodeRune b
      else if b = 0x07 then [backslash, CHR ''a'']
      else if b = 0x08 then [backslash, CHR ''b'']
      else if b = 0x0C then [backslash, CHR ''f'']
      else if b = 0x0A then [backslash, CHR ''n'']
      else if b = 0x0D then [backslash, CHR ''r'']
      else if b = 0x09 then [backslash, CHR ''t'']
      else if b = 0x0B then [backslash, CHR ''v'']
      else if b < 0x20 then [backslash, CHR ''x'', hex (b div 16), hex (b mod 16)]
      else [backslash] @ ''u00'' @ [hex (b div 16), hex (b mod 16)])"

definition quoteChar :: "char \<Rightarrow> string" where
  "quoteChar c =
     (if c = CHR 0x27 then [CHR 0x27, backslash, CHR 0x27, CHR 0x27]
      else if c = dquote then [CHR 0x27, dquote, CHR 0x27]
      else [CHR 0x27] @ quoteRune c @ [CHR 0x27])"

definition scanFail :: "scanner \<Rightarrow> char \<Rightarrow> string \<Rightarrow> scanner" where
  "scanFail s c context =
     s\<lparr>step := StError, scanErr := Some (''invalid character '' @ quoteChar c @ '' '' @ context)\<rparr>"

definition stateEndTop :: "scanner \<Rightarrow> char \<Rightarrow> scanner" where
  "stateEndTop s c = (if \<not> isSpace c then scanFail s c ''after top-level value'' else s)"

definition popParseState :: "scanner \<Rightarrow> scanner" where
  "popParseState s =
     (if tl (parseState s) = []
      then s\<lparr>parseState := [], step := StEndTop, endTop := True\<rparr>
      else s\<lparr>parseState := tl (parseState s), step := StEndValue\<rparr>)"

definition stateEndValue :: "scanner \<Rightarrow> char \<Rightarrow> scanner" where
  "stateEndValue s c =
     (case parseState s of
        [] \<Rightarrow> stateEndTop (s\<lparr>step := StEndTop, endTop := True\<rparr>) c
      | ps # rest \<Rightarrow>
          if isSpace c then s\<lparr>step := StEndValue\<rparr>
          else
            (case ps of
               parseObjectKey \<Rightarrow>
                 if c = CHR '':''
                 then s\<lparr>parseState := parseObjectValue # rest, step := StBeginValue\<rparr>
                 else scanFail s c ''after object key''
             | parseObjectValue \<Rightarrow>
                 if c = CHR '',''
                 then s\<lparr>parseState := parseObjectKey # rest, step := StBeginString\<rparr>
                 else if c = CHR ''}'' then popParseState s
                 else scanFail s c ''after object key:value pair''
             | parseArrayValue \<Rightarrow>
                 if c = CHR '','' then s\<lparr>step := StBeginValue\<rparr>
                 else if c = CHR '']'' then popParseState s
                 else scanFail s c ''after array element''))"

definition stateBeginString :: "scanner \<Rightarrow> char \<Rightarrow> scanner" where
  "stateBeginString s c =
     (if isSpace c then s
      else if c = dquote then s\<lparr>step := StInString\<rparr>
      else scanFail s c ''looking for beginning of object key string'')"

definition stateBeginValue :: "scanner \<Rightarrow> char \<Rightarrow> scanner" where
  "stateBeginValue s c =
     (if isSpace c then s
      else if c = CHR ''{''
        then s\<lparr>step := StBeginStringOrEmpty, parseState := parseObjectKey # parseState s\<rparr>
      else if c = CHR ''[''
        then s\<lparr>step := StBeginValueOrEmpty, parseState := parseArrayValue # parseState s\<rparr>
      else if c = dquote then s\<lparr>step := StInString\<rparr>
      else if c = CHR ''-'' then s\<lparr>step := StNeg\<rparr>
      else if c = CHR ''0'' then s\<lparr>step := St0\<rparr>
      else if c = CHR ''t'' then s\<lparr>step := StT\<rparr>
      else if c = CHR ''f'' then s\<lparr>step := StF\<rparr>
      else if c = CHR ''n'' then s\<lparr>step := StN\<rparr>
      else if isDigit c then s\<lparr>step := St1\<rparr>
      else scanFail s c ''looking for beginning of value'')"

definition stateBeginStringOrEmpty :: "scanner \<Rightarrow> char \<Rightarrow> scanner" where
  "stateBeginStringOrEmpty s c =
     (if isSpace c then s
      else if c = CHR ''}''
        then stateEndValue (s\<lparr>parseState := parseObjectValue # tl (parseState s)\<rparr>) c
      else stateBeginString s c)"

definition stateBeginValueOrEmpty :: "scanner \<Rightarrow> char \<Rightarrow> scanner" where
  "stateBeginValueOrEmpty s c =
     (if isSpace c then s
      else if c = CHR '']'' then stateEndValue s c
      else stateBeginValue s c)"

definition stateInString :: "scanner \<Rightarrow> char \<Rightarrow> scanner" where
  "stateInString s c =
     (if c = dquote then s\<lparr>step := StEndValue\<rparr>
      else if c = backslash then s\<lparr>step := StInStringEsc\<rparr>
      else if byte c < 0x20 then scanFail s c ''in string literal''
      else s)"

definition stateInStringEsc :: "scanner \<Rightarrow> char \<Rightarrow> scanner" where
  "stateInStringEsc s c =
     (if c \<in> set ''bfnrt'' \<or> c = backslash \<or> c = CHR ''/'' \<or> c = dquote
      then s\<lparr>step := StInString\<rparr>
      else if c = CHR ''u'' then s\<lparr>step := StInStringEscU\<rparr>
      else scanFail s c ''in string escape code'')"

definition state0 :: "scanner \<Rightarrow> char \<Rightarrow> scanner" where
  "state0 s c =
     (if c = CHR ''.'' then s\<lparr>step := StDot\<rparr>
      else if c = CHR ''e'' \<or> c = CHR ''E'' then s\<lparr>step := StE\<rparr>
      else stateEndValue s c)"

definition state1 :: "scanner \<Rightarrow> char \<Rightarrow> scanner" where
  "state1 s c = (if isDigit c then s\<lparr>step := St1\<rparr> else state0 s c)"

definition stateDot0 :: "scanner \<Rightarrow> char \<Rightarrow> scanner" where
  "stateDot0 s c =
     (if isDigit c then s
      else if c = CHR ''e'' \<or> c = CHR ''E'' then s\<lparr>step := StE\<rparr>
      else stateEndValue s c)"

definition stateESign :: "scanner \<Rightarrow> char \<Rightarrow> scanner" where
  "stateESign s c =
     (if isDigit c then s\<lparr>step := StE0\<rparr>
      else scanFail s c ''in exponent of numeric literal'')"

definition stateInStringEscU :: "scanner \<Rightarrow> char \<Rightarrow> scanStep \<Rightarrow> scanner" where
  "stateInStringEscU s c next =
     (if isHex c then s\<lparr>step := next\<rparr>
      else scanFail s c (''in '' @ [backslash] @ ''u hexadecimal character escape''))"

definition expect :: "scanner \<Rightarrow> char \<Rightarrow> char \<Rightarrow> scanStep \<Rightarrow> string \<Rightarrow> scanner" where
  "expect s c wanted next literal =
     (if c = wanted then s\<lparr>step := next\<rparr>
      else scanFail s c (''in literal '' @ literal @ '' (expecting '' @ [CHR 0x27, wanted, CHR 0x27]
             @ '')''))"

definition scanByte :: "scanner \<Rightarrow> char \<Rightarrow> scanner" where
  "scanByte s c =
     (case step s of
        StBeginValueOrEmpty \<Rightarrow> stateBeginValueOrEmpty s c
      | StBeginValue \<Rightarrow> stateBeginValue s c
      | StBeginStringOrEmpty \<Rightarrow> stateBeginStringOrEmpty s c
      | StBeginString \<Rightarrow> stateBeginString s c
      | StEndValue \<Rightarrow> stateEndValue s c
      | StEndTop \<Rightarrow> stateEndTop s c
      | StInString \<Rightarrow> stateInString s c
      | StInStringEsc \<Rightarrow> stateInStringEsc s c
      | StInStringEscU \<Rightarrow> stateInStringEscU s c StInStringEscU1
      | StInStringEscU1 \<Rightarrow> stateInStringEscU s c StInStringEscU12
      | StInStringEscU12 \<Rightarrow> stateInStringEscU s c StInStringEscU123
      | StInStringEscU123 \<Rightarrow> stateInStringEscU s c StInString
      | StNeg \<Rightarrow>
          (if c = CHR ''0'' then s\<lparr>step := St0\<rparr>
           else if isDigit c then s\<lparr>step := St1\<rparr>
           else scanFail s c ''in numeric literal'')
      | St1 \<Rightarrow> state1 s c
      | St0 \<Rightarrow> state0 s c
      | StDot \<Rightarrow>
          (if isDigit c then s\<lparr>step := StDot0\<rparr>
           else scanFail s c ''after decimal point in numeric literal'')
      | StDot0 \<Rightarrow> stateDot0 s c
      | StE \<Rightarrow>
          (if c = CHR ''+'' \<or> c = CHR ''-'' then s\<lparr>step := StESign\<rparr> else stateESign s c)
      | StESign \<Rightarrow> stateESign s c
      | StE0 \<Rightarrow> (if isDigit c then s else stateEndValue s c)
      | StT \<Rightarrow> expect s c (CHR ''r'') StTr ''true''
      | StTr \<Rightarrow> expect s c (CHR ''u'') StTru ''true''
      | StTru \<Rightarrow> expect s c (CHR ''e'') StEndValue ''true''
      | StF \<Rightarrow> expect s c (CHR ''a'') StFa ''false''
      | StFa \<Rightarrow> expect s c (CHR ''l'') StFal ''false''
      | StFal \<Rightarrow> expect s c (CHR ''s'') StFals ''false''
      | StFals \<Rightarrow> expect s c (CHR ''e'') StEndValue ''false''
      | StN \<Rightarrow> expect s c (CHR ''u'') StNu ''null''
      | StNu \<Rightarrow> expect s c (CHR ''l'') StNul ''null''
      | StNul \<Rightarrow> expect s c (CHR ''l'') StEndValue ''null''
      | StError \<Rightarrow> s)"

text \<open>\<^verbatim>\<open>checkValid\<close>: the error of the scan, if any. At the end of the input the
  scanner is given a space (\<^verbatim>\<open>eof\<close>): the value may end there, or the space is an
  error of its own, or the input ended too early.\<close>

definition scanInit :: scanner where
  "scanInit = \<lparr>step = StBeginValue, parseState = [], endTop = False, scanErr = None\<rparr>"

definition checkValid :: "string \<Rightarrow> string option" where
  "checkValid data =
     (let s = foldl scanByte scanInit data in
      case scanErr s of
        Some e \<Rightarrow> Some e
      | None \<Rightarrow>
          if endTop s then None
          else if endTop (scanByte s (CHR '' '')) then None
          else
            (case scanErr (scanByte s (CHR '' '')) of
               Some e \<Rightarrow> Some e
             | None \<Rightarrow> Some ''unexpected end of JSON input''))"

subsection \<open>encoding/json: strings of a JSON text\<close>

definition hexValue :: "char \<Rightarrow> nat" where
  "hexValue c =
     (if isDigit c then byte c - 0x30
      else if 0x61 \<le> byte c then byte c - 0x61 + 10
      else byte c - 0x41 + 10)"

text \<open>\<^verbatim>\<open>getu4\<close>: the number of a \<^verbatim>\<open>\uXXXX\<close> escape at the head of the string.\<close>

definition getu4 :: "string \<Rightarrow> nat option" where
  "getu4 s =
     (if length s < 6 then None
      else if s ! 0 = backslash \<and> s ! 1 = CHR ''u'' \<and> list_all isHex (take 4 (drop 2 s))
        then Some (foldl (\<lambda>n c. n * 16 + hexValue c) 0 (take 4 (drop 2 s)))
      else None)"

text \<open>\<^verbatim>\<open>utf16.DecodeRune\<close>: the code point of a surrogate pair, U+FFFD for anything
  else.\<close>

definition utf16_DecodeRune :: "nat \<Rightarrow> nat option \<Rightarrow> nat" where
  "utf16_DecodeRune r1 r2opt =
     (case r2opt of
        None \<Rightarrow> RuneError
      | Some r2 \<Rightarrow>
          if 0xD800 \<le> r1 \<and> r1 < 0xDC00 \<and> 0xDC00 \<le> r2 \<and> r2 < 0xE000
          then (r1 - 0xD800) * 1024 + (r2 - 0xDC00) + 0x10000
          else RuneError)"

definition escapedByte :: "char \<Rightarrow> char" where
  "escapedByte c =
     (if c = CHR ''b'' then CHR 0x08
      else if c = CHR ''f'' then CHR 0x0C
      else if c = CHR ''n'' then CHR 0x0A
      else if c = CHR ''r'' then CHR 0x0D
      else if c = CHR ''t'' then CHR 0x09
      else c)"

text \<open>\<^verbatim>\<open>unquote\<close>, on the text between the quotes of a string the scanner has
  accepted: escapes are replaced, a pair of surrogate escapes becomes one code point,
  and what is not valid UTF-8 becomes U+FFFD.\<close>

function unquoteBytes :: "string \<Rightarrow> string" where
  "unquoteBytes [] = []"
| "unquoteBytes (c # cs) =
     (if c = backslash then
        (if cs = [] then []
         else if hd cs = CHR ''u'' then
           (case getu4 (c # cs) of
              None \<Rightarrow> []
            | Some rr \<Rightarrow>
                if 0xD800 \<le> rr \<and> rr < 0xE000 then
                  (if utf16_DecodeRune rr (getu4 (drop 5 cs)) \<noteq> RuneError
                   then EncodeRune (utf16_DecodeRune rr (getu4 (drop 5 cs)))
                        @ unquoteBytes (drop 11 cs)
                   else EncodeRune RuneError @ unquoteBytes (drop 5 cs))
                else EncodeRune rr @ unquoteBytes (drop 5 cs))
         else escapedByte (hd cs) # unquoteBytes (tl cs))
      else if byte c < 0x80 then c # unquoteBytes cs
      else
        EncodeRune (fst (DecodeRuneInString (c # cs)))
        @ unquoteBytes (drop (snd (DecodeRuneInString (c # cs))) (c # cs)))"
  by pat_completeness auto
termination
proof (relation "measure length")
  show "wf (measure length)" by simp
next
  fix c :: char and cs :: string
  show "(drop 11 cs, c # cs) \<in> measure length" by simp
next
  fix c :: char and cs :: string
  show "(drop 5 cs, c # cs) \<in> measure length" by simp
next
  fix c :: char and cs :: string
  show "(drop 5 cs, c # cs) \<in> measure length" by simp
next
  fix c :: char and cs :: string
  assume "cs \<noteq> []"
  then show "(tl cs, c # cs) \<in> measure length" by simp
next
  fix c :: char and cs :: string
  show "(cs, c # cs) \<in> measure length" by simp
next
  fix c :: char and cs :: string
  have "1 \<le> snd (DecodeRuneInString (c # cs))"
    using DecodeRuneInString_size by blast
  then show "(drop (snd (DecodeRuneInString (c # cs))) (c # cs), c # cs) \<in> measure length"
    by simp
qed

declare unquoteBytes.simps [simp del]

text \<open>
  The name of a struct field matches a key of the JSON object when the two are
  equal up to the case of ASCII letters, where the long s (U+017F) stands for an
  \<^verbatim>\<open>s\<close> and the Kelvin sign (U+212A) for a \<^verbatim>\<open>k\<close> (\<^verbatim>\<open>equalFoldRight\<close> of \<^verbatim>\<open>fold.go\<close>).
\<close>

definition caseMask :: "nat \<Rightarrow> nat" where
  "caseMask b = b - ((b div 32) mod 2) * 32"

fun equalFoldRight :: "string \<Rightarrow> string \<Rightarrow> bool" where
  "equalFoldRight [] t = (t = [])"
| "equalFoldRight (sb # s) [] = False"
| "equalFoldRight (sb # s) (tb # t) =
     (if byte tb < 0x80 then
        (if sb \<noteq> tb then
           (if 0x41 \<le> caseMask (byte sb) \<and> caseMask (byte sb) \<le> 0x5A
               \<and> caseMask (byte sb) = caseMask (byte tb)
            then equalFoldRight s t
            else False)
         else equalFoldRight s t)
      else
        (if ((sb = CHR ''s'' \<or> sb = CHR ''S'') \<and> fst (DecodeRuneInString (tb # t)) = 0x17F)
            \<or> ((sb = CHR ''k'' \<or> sb = CHR ''K'') \<and> fst (DecodeRuneInString (tb # t)) = 0x212A)
         then equalFoldRight s (drop (snd (DecodeRuneInString (tb # t))) (tb # t))
         else False))"

section \<open>The data of the chaincode\<close>

record ERC20Metadata =
  Name :: string
  Symbol :: string
  Owner :: string
  TotalSupply :: nat

record TransferEvent =
  Sender :: string
  Recipient :: string
  Amount :: int

text \<open>The struct \<^verbatim>\<open>Insurance\<close> is local to \<^verbatim>\<open>approve\<close>; its fields \<^verbatim>\<open>Name\<close> and
  \<^verbatim>\<open>Amount\<close> carry the struct's name here, as a record's field names are global.\<close>

record Insurance =
  InsuranceName :: string
  InsuranceAmount :: string

definition Marshal_ERC20Metadata :: "ERC20Metadata \<Rightarrow> bytes" where
  "Marshal_ERC20Metadata erc20 =
     ''{'' @ jsonKey ''name'' @ jsonString (Name erc20) @
     '','' @ jsonKey ''symbol'' @ jsonString (Symbol erc20) @
     '','' @ jsonKey ''owner'' @ jsonString (Owner erc20) @
     '','' @ jsonKey ''totalSupply'' @ FormatUint (TotalSupply erc20) @ ''}''"

definition Marshal_TransferEvent :: "TransferEvent \<Rightarrow> bytes" where
  "Marshal_TransferEvent ev =
     ''{'' @ jsonKey ''sender'' @ jsonString (Sender ev) @
     '','' @ jsonKey ''recipient'' @ jsonString (Recipient ev) @
     '','' @ jsonKey ''amount'' @ Itoa (Amount ev) @ ''}''"

definition Marshal_Insurance :: "Insurance \<Rightarrow> bytes" where
  "Marshal_Insurance insurance =
     ''{'' @ jsonKey ''name'' @ jsonString (InsuranceName insurance) @
     '','' @ jsonKey ''amount'' @ jsonString (InsuranceAmount insurance) @ ''}''"

fun joinComma :: "string list \<Rightarrow> string" where
  "joinComma [] = []"
| "joinComma [x] = x"
| "joinComma (x # y # ys) = x @ '','' @ joinComma (y # ys)"

definition Marshal_Insurances :: "Insurance list \<Rightarrow> bytes" where
  "Marshal_Insurances result = ''['' @ joinComma (map Marshal_Insurance result) @ '']''"

subsection \<open>encoding/json: unmarshalling the metadata\<close>

text \<open>
  After the check of the syntax the decoder walks the value. Its pieces here are the
  tokens of the text; a string token holds the text between its quotes, a literal
  token the text of a number, \<^verbatim>\<open>true\<close>, \<^verbatim>\<open>false\<close> or \<^verbatim>\<open>null\<close>.
\<close>

datatype token =
    TBeginObject | TEndObject | TBeginArray | TEndArray | TColon | TComma
  | TString string | TLiteral string

datatype tokenMode = Between | InLit | InStr | InStrEsc

definition punctuation :: "char \<Rightarrow> token option" where
  "punctuation c =
     (if c = CHR ''{'' then Some TBeginObject
      else if c = CHR ''}'' then Some TEndObject
      else if c = CHR ''['' then Some TBeginArray
      else if c = CHR '']'' then Some TEndArray
      else if c = CHR '':'' then Some TColon
      else if c = CHR '','' then Some TComma
      else None)"

fun tokenize :: "tokenMode \<Rightarrow> string \<Rightarrow> string \<Rightarrow> token list" where
  "tokenize mode buf [] = (if mode = InLit then [TLiteral buf] else [])"
| "tokenize InStr buf (c # cs) =
     (if c = backslash then tokenize InStrEsc (buf @ [c]) cs
      else if c = dquote then TString buf # tokenize Between [] cs
      else tokenize InStr (buf @ [c]) cs)"
| "tokenize InStrEsc buf (c # cs) = tokenize InStr (buf @ [c]) cs"
| "tokenize mode buf (c # cs) =
     (let flush = (if mode = InLit then [TLiteral buf] else []) in
      if isSpace c then flush @ tokenize Between [] cs
      else if c = dquote then flush @ tokenize InStr [] cs
      else
        case punctuation c of
          Some t \<Rightarrow> flush @ t # tokenize Between [] cs
        | None \<Rightarrow> tokenize InLit (buf @ [c]) cs)"

datatype field = FieldName | FieldSymbol | FieldOwner | FieldTotalSupply

definition lookupField :: "string \<Rightarrow> field option" where
  "lookupField key =
     (if equalFoldRight ''name'' key then Some FieldName
      else if equalFoldRight ''symbol'' key then Some FieldSymbol
      else if equalFoldRight ''owner'' key then Some FieldOwner
      else if equalFoldRight ''totalSupply'' key then Some FieldTotalSupply
      else None)"

definition fieldType :: "field \<Rightarrow> string" where
  "fieldType f = (if f = FieldTotalSupply then ''uint64'' else ''string'')"

definition fieldJsonName :: "field \<Rightarrow> string" where
  "fieldJsonName f =
     (case f of FieldName \<Rightarrow> ''name'' | FieldSymbol \<Rightarrow> ''symbol'' | FieldOwner \<Rightarrow> ''owner''
      | FieldTotalSupply \<Rightarrow> ''totalSupply'')"

definition typeError :: "string \<Rightarrow> field \<Rightarrow> string" where
  "typeError v f =
     ''json: cannot unmarshal '' @ v @ '' into Go struct field ERC20Metadata.''
     @ fieldJsonName f @ '' of type '' @ fieldType f"

text \<open>The decoder keeps the first error and goes on; \<open>saveError\<close> is that.\<close>

definition saveError :: "string option \<Rightarrow> string \<Rightarrow> string option" where
  "saveError saved err = (if saved = None then Some err else saved)"

definition setString :: "field \<Rightarrow> string \<Rightarrow> ERC20Metadata \<Rightarrow> ERC20Metadata" where
  "setString f v erc20 =
     (case f of
        FieldName \<Rightarrow> erc20\<lparr>Name := v\<rparr>
      | FieldSymbol \<Rightarrow> erc20\<lparr>Symbol := v\<rparr>
      | FieldOwner \<Rightarrow> erc20\<lparr>Owner := v\<rparr>
      | FieldTotalSupply \<Rightarrow> erc20)"

text \<open>\<^verbatim>\<open>literalStore\<close> for one field of the struct: a string goes into a string
  field, a number that \<^verbatim>\<open>ParseUint\<close> accepts into \<^verbatim>\<open>TotalSupply\<close>, \<^verbatim>\<open>null\<close> changes
  nothing, and everything else is a type error.\<close>

definition storeString ::
    "field \<Rightarrow> string \<Rightarrow> ERC20Metadata \<times> string option \<Rightarrow> ERC20Metadata \<times> string option" where
  "storeString f raw st =
     (if f = FieldTotalSupply then (fst st, saveError (snd st) (typeError ''string'' f))
      else (setString f (unquoteBytes raw) (fst st), snd st))"

definition storeLiteral ::
    "field \<Rightarrow> string \<Rightarrow> ERC20Metadata \<times> string option \<Rightarrow> ERC20Metadata \<times> string option" where
  "storeLiteral f item st =
     (if item = ''null'' then st
      else if item = ''true'' \<or> item = ''false''
        then (fst st, saveError (snd st) (typeError ''bool'' f))
      else if f = FieldTotalSupply then
        (case ParseUint item of
           None \<Rightarrow> (fst st, saveError (snd st) (typeError (''number '' @ item) f))
         | Some n \<Rightarrow> ((fst st)\<lparr>TotalSupply := n\<rparr>, snd st))
      else (fst st, saveError (snd st) (typeError ''number'' f)))"

text \<open>
  The loop of \<^verbatim>\<open>d.object\<close> over the members of the top-level object, one token at
  a time. \<open>key\<close> is the key of the member whose value comes next. \<open>depth\<close> counts the
  objects and arrays still open inside the value of a member: such a value fits no
  field of the struct (a type error when the key names a field) and is skipped.
\<close>

definition storeValue ::
    "string \<Rightarrow> token \<Rightarrow> ERC20Metadata \<times> string option \<Rightarrow> ERC20Metadata \<times> string option" where
  "storeValue key t st =
     (case lookupField (unquoteBytes key) of
        None \<Rightarrow> st
      | Some f \<Rightarrow>
          (case t of
             TString raw \<Rightarrow> storeString f raw st
           | TLiteral item \<Rightarrow> storeLiteral f item st
           | TBeginObject \<Rightarrow> (fst st, saveError (snd st) (typeError ''object'' f))
           | TBeginArray \<Rightarrow> (fst st, saveError (snd st) (typeError ''array'' f))
           | _ \<Rightarrow> st))"

fun objectLoop ::
    "nat \<Rightarrow> string option \<Rightarrow> token list \<Rightarrow> ERC20Metadata \<times> string option
       \<Rightarrow> ERC20Metadata \<times> string option" where
  "objectLoop depth key [] st = st"
| "objectLoop (Suc depth) key (t # ts) st =
     (if t = TBeginObject \<or> t = TBeginArray then objectLoop (Suc (Suc depth)) key ts st
      else if t = TEndObject \<or> t = TEndArray then objectLoop depth key ts st
      else objectLoop (Suc depth) key ts st)"
| "objectLoop 0 None (t # ts) st =
     (case t of
        TString k \<Rightarrow> objectLoop 0 (Some k) ts st
      | TEndObject \<Rightarrow> st
      | _ \<Rightarrow> objectLoop 0 None ts st)"
| "objectLoop 0 (Some k) (t # ts) st =
     (if t = TColon then objectLoop 0 (Some k) ts st
      else if t = TBeginObject \<or> t = TBeginArray then objectLoop 1 None ts (storeValue k t st)
      else objectLoop 0 None ts (storeValue k t st))"

text \<open>
  \<^verbatim>\<open>json.Unmarshal(data, &erc20)\<close>: the error, or the struct with the fields the text
  sets. A text that is not valid JSON is a syntax error. A valid text is decoded by
  its first byte after the white space: an object fills the struct, \<^verbatim>\<open>null\<close> leaves
  it as it is, and an array, a string, a boolean or a number is a type error.
\<close>

definition topTypeError :: "string \<Rightarrow> string" where
  "topTypeError v = ''json: cannot unmarshal '' @ v @ '' into Go value of type main.ERC20Metadata''"

definition Unmarshal_ERC20Metadata :: "bytes \<Rightarrow> ERC20Metadata \<Rightarrow> string + ERC20Metadata" where
  "Unmarshal_ERC20Metadata data erc20 =
     (case checkValid data of
        Some err \<Rightarrow> Inl err
      | None \<Rightarrow>
          (case dropWhile isSpace data of
             [] \<Rightarrow> Inl ''unexpected end of JSON input''
           | c # cs \<Rightarrow>
               if c = CHR ''{'' then
                 (case objectLoop 0 None (tokenize Between [] cs) (erc20, None) of
                    (erc20', Some err) \<Rightarrow> Inl err
                  | (erc20', None) \<Rightarrow> Inr erc20')
               else if c = CHR ''['' then Inl (topTypeError ''array'')
               else if c = CHR ''n'' then Inr erc20
               else if c = CHR ''t'' \<or> c = CHR ''f'' then Inl (topTypeError ''bool'')
               else if c = dquote then Inl (topTypeError ''string'')
               else Inl (topTypeError ''number'')))"

section \<open>The shim: responses, the stub and composite keys\<close>

text \<open>
  A \<^verbatim>\<open>peer.Response\<close> has a status, a message and a payload (\<open>None\<close> is Go's
  \<^verbatim>\<open>nil\<close>). \<^verbatim>\<open>shim.Success\<close> answers with status 200, \<^verbatim>\<open>shim.Error\<close> with status 500.
  An invocation either returns a response or stops in a run-time panic; the only
  panic this program can raise is an index out of range.
\<close>

record Response =
  Status :: nat
  Message :: string
  Payload :: "bytes option"

definition shim_Success :: "bytes option \<Rightarrow> Response" where
  "shim_Success payload = \<lparr>Status = 200, Message = [], Payload = payload\<rparr>"

definition shim_Error :: "string \<Rightarrow> Response" where
  "shim_Error msg = \<lparr>Status = 500, Message = msg, Payload = None\<rparr>"

datatype outcome = Returns Response | PanicIndexOutOfRange

text \<open>
  The stub is the chaincode's only access to the ledger. It holds the world state
  (keys to values, an association list read with \<^const>\<open>map_of\<close>), the event set by the
  invocation, and \<open>fault\<close>: which of its calls fail, and with what message. The
  program receives the stub through an interface and checks the error of most calls,
  so a failing call is an input like any other.

  The operations below return the stub as the code left it. A write followed by an
  error response stays in the returned stub; what the host then does with the
  writes of a failed invocation is not the chaincode's.
\<close>

datatype peer_call =
    CallGetState string
  | CallPutState string
  | CallGetStateByRange string string
  | CallSetEvent string

record ChaincodeStub =
  state :: "(string \<times> bytes) list"
  event :: "(string \<times> bytes) option"
  fault :: "peer_call \<Rightarrow> string option"

text \<open>\<^verbatim>\<open>GetState\<close>: the value of the key, \<^verbatim>\<open>nil\<close> when the key is absent.\<close>

definition GetState :: "ChaincodeStub \<Rightarrow> string \<Rightarrow> string + bytes option" where
  "GetState stub key =
     (case fault stub (CallGetState key) of
        Some err \<Rightarrow> Inl err
      | None \<Rightarrow> Inr (map_of (state stub) key))"

text \<open>\<^verbatim>\<open>PutState\<close> refuses the empty key. Writing an empty value removes the key: the
  ledger keeps no empty values.\<close>

definition PutState :: "ChaincodeStub \<Rightarrow> string \<Rightarrow> bytes \<Rightarrow> string + ChaincodeStub" where
  "PutState stub key val =
     (if key = [] then Inl ''key must not be an empty string''
      else
        case fault stub (CallPutState key) of
          Some err \<Rightarrow> Inl err
        | None \<Rightarrow>
            Inr (stub\<lparr>state :=
                   (if val = [] then AList.delete key (state stub)
                    else AList.update key val (state stub))\<rparr>))"

definition SetEvent :: "ChaincodeStub \<Rightarrow> string \<Rightarrow> bytes \<Rightarrow> string + ChaincodeStub" where
  "SetEvent stub name payload =
     (if name = [] then Inl ''event name can not be nil string''
      else
        case fault stub (CallSetEvent name) of
          Some err \<Rightarrow> Inl err
        | None \<Rightarrow> Inr (stub\<lparr>event := Some (name, payload)\<rparr>))"

subsection \<open>Composite keys\<close>

text \<open>
  A composite key is \<^verbatim>\<open>\x00\<close>, the object type, \<^verbatim>\<open>\x00\<close>, then every attribute followed
  by \<^verbatim>\<open>\x00\<close>. The object type and the attributes must be valid UTF-8 without U+0000
  and U+10FFFF. On an error \<^verbatim>\<open>CreateCompositeKey\<close> returns the empty string beside the
  error, and both are in the pair here. The messages are the shim's: they give the
  bytes of a string that is not UTF-8 in hexadecimal, and the reserved code point
  with the index of its first byte.
\<close>

definition hexString :: "string \<Rightarrow> string" where
  "hexString str = concat (map (\<lambda>c. [hex (byte c div 16), hex (byte c mod 16)]) str)"

text \<open>The first U+0000 or U+10FFFF of the string, with the index of its first
  byte.\<close>

fun findReserved :: "nat \<Rightarrow> (nat \<times> nat) list \<Rightarrow> (nat \<times> nat) option" where
  "findReserved index [] = None"
| "findReserved index ((runeValue, sz) # rs) =
     (if runeValue = 0 \<or> runeValue = MaxRune then Some (index, runeValue)
      else findReserved (index + sz) rs)"

text \<open>The verb \<^verbatim>\<open>%#U\<close> on one of the two reserved code points, neither of which is
  printable.\<close>

definition formatReserved :: "nat \<Rightarrow> string" where
  "formatReserved runeValue = (if runeValue = 0 then ''U+0000'' else ''U+10FFFF'')"

definition validateCompositeKeyAttribute :: "string \<Rightarrow> string option" where
  "validateCompositeKeyAttribute str =
     (if \<not> ValidString str then Some (''not a valid utf8 string: ['' @ hexString str @ '']'')
      else
        case findReserved 0 (runes str) of
          Some (index, runeValue) \<Rightarrow>
            Some (''input contain unicode '' @ formatReserved runeValue
                  @ '' starting at position ['' @ FormatUint index @ '']. ''
                  @ ''U+0000 and U+10FFFF are not allowed in the input attribute of a composite key'')
        | None \<Rightarrow> None)"

fun appendAttributes :: "string \<Rightarrow> string list \<Rightarrow> string \<times> string option" where
  "appendAttributes ck [] = (ck, None)"
| "appendAttributes ck (att # attributes) =
     (case validateCompositeKeyAttribute att of
        Some err \<Rightarrow> ([], Some err)
      | None \<Rightarrow> appendAttributes (ck @ att @ [NUL]) attributes)"

definition CreateCompositeKey :: "string \<Rightarrow> string list \<Rightarrow> string \<times> string option" where
  "CreateCompositeKey objectType attributes =
     (case validateCompositeKeyAttribute objectType of
        Some err \<Rightarrow> ([], Some err)
      | None \<Rightarrow> appendAttributes ([NUL] @ objectType @ [NUL]) attributes)"

text \<open>\<^verbatim>\<open>SplitCompositeKey\<close> cuts the key after its first byte at every \<^verbatim>\<open>\x00\<close>; what
  follows the last \<^verbatim>\<open>\x00\<close> is dropped. It returns \<^verbatim>\<open>components[0]\<close> and
  \<^verbatim>\<open>components[1:]\<close>, and panics when there is no component.\<close>

fun splitComponents :: "string \<Rightarrow> string \<Rightarrow> string list" where
  "splitComponents component [] = []"
| "splitComponents component (c # cs) =
     (if c = NUL then component # splitComponents [] cs
      else splitComponents (component @ [c]) cs)"

definition SplitCompositeKey :: "string \<Rightarrow> (string \<times> string list) option" where
  "SplitCompositeKey compositeKey =
     (case splitComponents [] (drop 1 compositeKey) of
        [] \<Rightarrow> None
      | objectType # attrs \<Rightarrow> Some (objectType, attrs))"

text \<open>
  \<^verbatim>\<open>GetStateByPartialCompositeKey\<close> is a range query from the partial composite key
  to that key followed by the UTF-8 encoding of U+10FFFF (exclusive). The iterator
  yields the keys of the range in ascending byte order, each once.
\<close>

definition maxUnicodeRune :: string where
  "maxUnicodeRune = [CHR 0xF4, CHR 0x8F, CHR 0xBF, CHR 0xBF]"

definition GetStateByRange ::
    "ChaincodeStub \<Rightarrow> string \<Rightarrow> string \<Rightarrow> string + (string \<times> bytes) list" where
  "GetStateByRange stub startKey endKey =
     (case fault stub (CallGetStateByRange startKey endKey) of
        Some err \<Rightarrow> Inl err
      | None \<Rightarrow>
          Inr (sort_key fst
                 (filter (\<lambda>(k, v). startKey \<le> k \<and> k < endKey) (AList.clearjunk (state stub)))))"

definition GetStateByPartialCompositeKey ::
    "ChaincodeStub \<Rightarrow> string \<Rightarrow> string list \<Rightarrow> string + (string \<times> bytes) list" where
  "GetStateByPartialCompositeKey stub objectType attributes =
     (case CreateCompositeKey objectType attributes of
        (partialCompositeKey, Some err) \<Rightarrow> Inl err
      | (partialCompositeKey, None) \<Rightarrow>
          GetStateByRange stub partialCompositeKey (partialCompositeKey @ maxUnicodeRune))"

section \<open>The operations of the chaincode\<close>

text \<open>
  Every operation takes the stub and the parameters of the invocation and returns
  its outcome with the stub it leaves. What the source prints is left out.
\<close>

text \<open>\<^verbatim>\<open>string(b)\<close> of a \<^verbatim>\<open>nil\<close> byte slice is the empty string.\<close>

definition string_of :: "bytes option \<Rightarrow> string" where
  "string_of b = (case b of None \<Rightarrow> [] | Some v \<Rightarrow> v)"

subsection \<open>Init\<close>

definition Init :: "ChaincodeStub \<Rightarrow> string list \<Rightarrow> outcome \<times> ChaincodeStub" where
  "Init stub params =
     (if length params \<noteq> 4 then (Returns (shim_Error ''incorrect number of parameter''), stub)
      else
        let tokenName = params ! 0; symbol = params ! 1; owner = params ! 2; amount = params ! 3 in
        case ParseUint amount of
          None \<Rightarrow>
            (Returns (shim_Error ''amount must be a number or amount cannot be negative''), stub)
        | Some amountUint \<Rightarrow>
            if length tokenName = 0 \<or> length symbol = 0 \<or> length owner = 0
            then (Returns (shim_Error ''tokenName or symbol or owner cannot be emtpy''), stub)
            else
              let erc20 = \<lparr>Name = tokenName, Symbol = symbol, Owner = owner,
                           TotalSupply = amountUint\<rparr>;
                  erc20Bytes = Marshal_ERC20Metadata erc20
              in
              (case PutState stub tokenName erc20Bytes of
                 Inl err \<Rightarrow> (Returns (shim_Error (''failed to PutState, error: '' @ err)), stub)
               | Inr stub1 \<Rightarrow>
                   (case PutState stub1 owner amount of
                      Inl err \<Rightarrow>
                        (Returns (shim_Error (''failed to PutState, error: '' @ err)), stub1)
                    | Inr stub2 \<Rightarrow> (Returns (shim_Success None), stub2))))"

subsection \<open>totalSupply\<close>

definition totalSupply :: "ChaincodeStub \<Rightarrow> string list \<Rightarrow> outcome \<times> ChaincodeStub" where
  "totalSupply stub params =
     (if length params \<noteq> 1 then (Returns (shim_Error ''incorrect number of parameter''), stub)
      else
        let tokenName = params ! 0;
            erc20 = \<lparr>Name = [], Symbol = [], Owner = [], TotalSupply = 0\<rparr>
        in
        case GetState stub tokenName of
          Inl err \<Rightarrow> (Returns (shim_Error (''failed to GetState, error: '' @ err)), stub)
        | Inr erc20Bytes \<Rightarrow>
            (case Unmarshal_ERC20Metadata (string_of erc20Bytes) erc20 of
               Inl err \<Rightarrow> (Returns (shim_Error (''failed to Unmarshal, error: '' @ err)), stub)
             | Inr erc20' \<Rightarrow>
                 (Returns (shim_Success (Some (FormatUint (TotalSupply erc20')))), stub)))"

subsection \<open>balanceOf\<close>

definition balanceOf :: "ChaincodeStub \<Rightarrow> string list \<Rightarrow> outcome \<times> ChaincodeStub" where
  "balanceOf stub params =
     (if length params \<noteq> 1 then (Returns (shim_Error ''incorrect number of parameters''), stub)
      else
        let address = params ! 0 in
        case GetState stub address of
          Inl err \<Rightarrow> (Returns (shim_Error (''failed to GetState, error: '' @ err)), stub)
        | Inr amountBytes \<Rightarrow>
            (case amountBytes of
               None \<Rightarrow> (Returns (shim_Success (Some ''0'')), stub)
             | Some b \<Rightarrow> (Returns (shim_Success (Some b)), stub)))"

subsection \<open>transfer\<close>

definition transfer :: "ChaincodeStub \<Rightarrow> string list \<Rightarrow> outcome \<times> ChaincodeStub" where
  "transfer stub params =
     (if length params \<noteq> 3 then (Returns (shim_Error ''incorrect number of parameters''), stub)
      else
        let callerAddress = params ! 0; recipientAddress = params ! 1;
            transferAmount = params ! 2
        in
        case Atoi transferAmount of
          None \<Rightarrow> (Returns (shim_Error ''transfer amount must be integer''), stub)
        | Some transferAmountInt \<Rightarrow>
            if transferAmountInt \<le> 0
            then (Returns (shim_Error ''transfer amount must be positive''), stub)
            else
              (case GetState stub callerAddress of
                Inl err \<Rightarrow> (Returns (shim_Error (''failed to GetState, error: '' @ err)), stub)
              | Inr callerAmount \<Rightarrow>
                  (case Atoi (string_of callerAmount) of
                     None \<Rightarrow> (Returns (shim_Error ''caller amount must be integer''), stub)
                   | Some callerAmountInt \<Rightarrow>
                       (case GetState stub recipientAddress of
                          Inl err \<Rightarrow>
                            (Returns (shim_Error (''failed to GetState, error: '' @ err)), stub)
                        | Inr recipientAmount0 \<Rightarrow>
                            let recipientAmount =
                                  (if recipientAmount0 = None then Some ''0'' else recipientAmount0)
                            in
                            (case Atoi (string_of recipientAmount) of
                               None \<Rightarrow>
                                 (Returns (shim_Error ''caller amount must be integer''), stub)
                             | Some recipientAmountInt \<Rightarrow>
                                 let callerResultAmount = int64 (callerAmountInt - transferAmountInt);
                                     recipientResultAmount =
                                       int64 (recipientAmountInt + transferAmountInt)
                                 in
                                 if callerResultAmount < 0
                                 then (Returns (shim_Error ''caller's balance is not sufficient''), stub)
                                 else
                                   (case PutState stub callerAddress (Itoa callerResultAmount) of
                                      Inl err \<Rightarrow>
                                        (Returns (shim_Error
                                           (''failed to PutState of caller, error: '' @ err)), stub)
                                    | Inr stub1 \<Rightarrow>
                                        (case PutState stub1 recipientAddress
                                                (Itoa recipientResultAmount) of
                                           Inl err \<Rightarrow>
                                             (Returns (shim_Error
                                                (''failed to PutState of caller, error: '' @ err)),
                                              stub1)
                                         | Inr stub2 \<Rightarrow>
                                             let transferEvent =
                                                   \<lparr>Sender = callerAddress,
                                                    Recipient = recipientAddress,
                                                    Amount = transferAmountInt\<rparr>;
                                                 transferEventBytes =
                                                   Marshal_TransferEvent transferEvent
                                             in
                                             (case SetEvent stub2 ''transferEvent''
                                                     transferEventBytes of
                                                Inl err \<Rightarrow>
                                                  (Returns (shim_Error
                                                     (''failed to SetEvent of TransferEvent, error: ''
                                                      @ err)), stub2)
                                              | Inr stub3 \<Rightarrow>
                                                  (Returns (shim_Success
                                                     (Some ''transfer Success'')), stub3)))))))))"

subsection \<open>allowance and approve\<close>

text \<open>\<^verbatim>\<open>allowance\<close> reads \<^verbatim>\<open>params[0]\<close>, \<^verbatim>\<open>params[1]\<close> and \<^verbatim>\<open>params[2]\<close> without a
  check of the length, drops the error of \<^verbatim>\<open>CreateCompositeKey\<close> and the error of
  \<^verbatim>\<open>PutState\<close>, and answers with success.\<close>

definition allowance :: "ChaincodeStub \<Rightarrow> string list \<Rightarrow> outcome \<times> ChaincodeStub" where
  "allowance stub params =
     (if length params < 3 then (PanicIndexOutOfRange, stub)
      else
        let id = params ! 0; name = params ! 1; amount = params ! 2;
            insuranceKey = fst (CreateCompositeKey ''insurance'' [id, name])
        in
        case PutState stub insuranceKey amount of
          Inl err \<Rightarrow> (Returns (shim_Success None), stub)
        | Inr stub1 \<Rightarrow> (Returns (shim_Success None), stub1))"

text \<open>The loop of \<^verbatim>\<open>approve\<close> over the iterator: every key is split, \<^verbatim>\<open>attrs[0]\<close> and
  \<^verbatim>\<open>attrs[1]\<close> are read (a panic when the key has fewer than two attributes), and an
  entry is appended to the result.\<close>

fun approveLoop :: "(string \<times> bytes) list \<Rightarrow> Insurance list \<Rightarrow> Insurance list option" where
  "approveLoop [] result = Some result"
| "approveLoop ((key, val) # insuranceIterator) result =
     (case SplitCompositeKey key of
        None \<Rightarrow> None
      | Some (objectType, attrs) \<Rightarrow>
          if length attrs < 2 then None
          else
            approveLoop insuranceIterator
              (result @ [\<lparr>InsuranceName = attrs ! 1, InsuranceAmount = val\<rparr>]))"

definition approve :: "ChaincodeStub \<Rightarrow> string list \<Rightarrow> outcome \<times> ChaincodeStub" where
  "approve stub params =
     (if length params < 1 then (PanicIndexOutOfRange, stub)
      else
        let id = params ! 0 in
        case GetStateByPartialCompositeKey stub ''insurance'' [id] of
          Inl err \<Rightarrow> (Returns (shim_Error (''error: '' @ err)), stub)
        | Inr insuranceIterator \<Rightarrow>
            (case approveLoop insuranceIterator [] of
               None \<Rightarrow> (PanicIndexOutOfRange, stub)
             | Some result \<Rightarrow>
                 (Returns (shim_Success (Some (Marshal_Insurances result))), stub)))"

subsection \<open>The operations without a body\<close>

definition transferFrom :: "ChaincodeStub \<Rightarrow> string list \<Rightarrow> outcome \<times> ChaincodeStub" where
  "transferFrom stub params = (Returns (shim_Success None), stub)"

definition increaseAllowance :: "ChaincodeStub \<Rightarrow> string list \<Rightarrow> outcome \<times> ChaincodeStub" where
  "increaseAllowance stub params = (Returns (shim_Success None), stub)"

definition decreaseAllowance :: "ChaincodeStub \<Rightarrow> string list \<Rightarrow> outcome \<times> ChaincodeStub" where
  "decreaseAllowance stub params = (Returns (shim_Success None), stub)"

definition mint :: "ChaincodeStub \<Rightarrow> string list \<Rightarrow> outcome \<times> ChaincodeStub" where
  "mint stub params = (Returns (shim_Success None), stub)"

definition burn :: "ChaincodeStub \<Rightarrow> string list \<Rightarrow> outcome \<times> ChaincodeStub" where
  "burn stub params = (Returns (shim_Success None), stub)"

subsection \<open>Invoke\<close>

definition Invoke :: "ChaincodeStub \<Rightarrow> string \<Rightarrow> string list \<Rightarrow> outcome \<times> ChaincodeStub" where
  "Invoke stub fcn params =
     (if fcn = ''totalSupply'' then totalSupply stub params
      else if fcn = ''balanceOf'' then balanceOf stub params
      else if fcn = ''transfer'' then transfer stub params
      else if fcn = ''allowance'' then allowance stub params
      else if fcn = ''approve'' then approve stub params
      else if fcn = ''transferFrom'' then transferFrom stub params
      else if fcn = ''increaseAllowance'' then increaseAllowance stub params
      else if fcn = ''decreaseAllowance'' then decreaseAllowance stub params
      else if fcn = ''mint'' then mint stub params
      else if fcn = ''burn'' then burn stub params
      else (Returns \<lparr>Status = 404, Message = ''404 Not Found'', Payload = None\<rparr>, stub))"

subsection \<open>Stubs for concrete runs\<close>

text \<open>\<open>ledger kvs\<close> is a stub over the world state \<open>kvs\<close> with no event set and
  no failing call.\<close>

definition noFault :: "peer_call \<Rightarrow> string option" where
  "noFault call = None"

definition ledger :: "(string \<times> bytes) list \<Rightarrow> ChaincodeStub" where
  "ledger kvs = \<lparr>state = kvs, event = None, fault = noFault\<rparr>"

text \<open>The composite keys of the namespace \<^verbatim>\<open>insurance\<close> all start with
  \<open>insuranceNamespace\<close>; \<open>aliceBobKey\<close> is the key of the pair (alice, bob).\<close>

definition insuranceNamespace :: string where
  "insuranceNamespace = [NUL] @ ''insurance'' @ [NUL]"

definition aliceBobKey :: string where
  "aliceBobKey = [NUL] @ ''insurance'' @ [NUL] @ ''alice'' @ [NUL] @ ''bob'' @ [NUL]"

section \<open>Facts about \<^verbatim>\<open>strconv\<close> and the wrap-around\<close>

lemma FormatUint_not_Nil: "FormatUint n \<noteq> []"
  by (subst FormatUint.simps) simp

lemma Itoa_not_Nil: "Itoa i \<noteq> []"
  by (simp add: Itoa_def FormatUint_not_Nil)

lemma isDigit_digit: "n < 10 \<Longrightarrow> isDigit (''0123456789'' ! n)"
proof -
  assume "n < 10"
  then have "n \<in> {0,1,2,3,4,5,6,7,8,9}" by auto
  then show ?thesis by (auto simp: isDigit_def)
qed

lemma byte_digit: "n < 10 \<Longrightarrow> byte (''0123456789'' ! n) - 48 = n"
proof -
  assume "n < 10"
  then have "n \<in> {0,1,2,3,4,5,6,7,8,9}" by auto
  then show ?thesis by auto
qed

lemma digitsValue_snoc: "digitsValue (ds @ [c]) = digitsValue ds * 10 + (byte c - 48)"
  by (simp add: digitsValue_def)

lemma FormatUint_digits: "list_all isDigit (FormatUint n)"
proof (induction n rule: FormatUint.induct)
  case (1 n)
  show ?case
  proof (cases "n < 10")
    case True
    then show ?thesis by (subst FormatUint.simps) (simp add: isDigit_digit)
  next
    case False
    then show ?thesis using 1 by (subst FormatUint.simps) (simp add: isDigit_digit)
  qed
qed

lemma digitsValue_FormatUint: "digitsValue (FormatUint n) = n"
proof (induction n rule: FormatUint.induct)
  case (1 n)
  show ?case
  proof (cases "n < 10")
    case True
    then show ?thesis by (subst FormatUint.simps) (simp add: digitsValue_def byte_digit)
  next
    case False
    then show ?thesis using 1
      by (subst FormatUint.simps) (simp add: digitsValue_snoc byte_digit)
  qed
qed

lemma isDigit_not_sign: "isDigit c \<Longrightarrow> c \<noteq> CHR ''-'' \<and> c \<noteq> CHR ''+''"
  by (auto simp: isDigit_def)

lemma Atoi_FormatUint: "int n < 2 ^ 63 \<Longrightarrow> Atoi (FormatUint n) = Some (int n)"
proof -
  assume b: "int n < 2 ^ 63"
  obtain c cs where f: "FormatUint n = c # cs"
    using FormatUint_not_Nil by (cases "FormatUint n") auto
  have d: "list_all isDigit (c # cs)" using FormatUint_digits[of n] f by simp
  then have "isDigit c" by simp
  then have ns: "c \<noteq> CHR ''-''" "c \<noteq> CHR ''+''" using isDigit_not_sign by auto
  have v: "digitsValue (c # cs) = n" using digitsValue_FormatUint[of n] f by simp
  have "\<not> int n < - (2 ^ 63)" by simp
  then show ?thesis using f d ns v b by (simp add: Atoi_def Let_def)
qed

lemma Atoi_Itoa: "- (2 ^ 63) \<le> i \<Longrightarrow> i < 2 ^ 63 \<Longrightarrow> Atoi (Itoa i) = Some i"
proof (cases "i < 0")
  case False
  assume "i < 2 ^ 63"
  then show ?thesis using False Atoi_FormatUint[of "nat i"] by (simp add: Itoa_def)
next
  case True
  assume lo: "- (2 ^ 63) \<le> i"
  have d: "list_all isDigit (FormatUint (nat (- i)))" by (rule FormatUint_digits)
  have v: "digitsValue (FormatUint (nat (- i))) = nat (- i)" by (rule digitsValue_FormatUint)
  show ?thesis using True lo d v FormatUint_not_Nil[of "nat (- i)"]
    by (simp add: Itoa_def Atoi_def Let_def)
qed

lemma int64_id: "- (2 ^ 63) \<le> x \<Longrightarrow> x < 2 ^ 63 \<Longrightarrow> int64 x = x"
  by (simp add: int64_def)

lemma Atoi_range: "Atoi s = Some n \<Longrightarrow> - (2 ^ 63) \<le> n \<and> n < 2 ^ 63"
  by (auto simp: Atoi_def Let_def split: list.splits if_splits)

lemma int64_wrap_high: "2 ^ 63 \<le> x \<Longrightarrow> x < 2 ^ 64 \<Longrightarrow> int64 x = x - 2 ^ 64"
proof -
  assume "2 ^ 63 \<le> x" and "x < 2 ^ 64"
  then have "(x + 2 ^ 63) mod 2 ^ 64 = x + 2 ^ 63 - 2 ^ 64"
    by (intro int_mod_pos_eq[where q = 1]) auto
  then show ?thesis by (simp add: int64_def)
qed

lemmas transfer_simps =
  transfer_def GetState_def PutState_def SetEvent_def string_of_def Let_def

lemmas run_simps =
  ledger_def noFault_def Atoi_def ParseUint_def isDigit_def digitsValue_def Itoa_def
  FormatUint.simps int64_def shim_Success_def shim_Error_def

lemmas key_simps =
  CreateCompositeKey_def validateCompositeKeyAttribute_def ValidString_def runes.simps
  DecodeRuneInString.simps RuneError_def MaxRune_def NUL_def hexString_def formatReserved_def
  FormatUint.simps

lemmas scan_simps =
  checkValid_def scanInit_def scanByte_def stateBeginValue_def state1_def state0_def
  stateEndValue_def stateEndTop_def isSpace_def isDigit_def scanFail_def quoteChar_def
  quoteRune_def dquote_def

section \<open>transfer\<close>

text \<open>
  What a transfer between two different addresses does when every check passes and
  the sum fits: the caller's value becomes \<open>b - n\<close>, the recipient's \<open>r + n\<close>.
\<close>

lemma transfer_moves:
  assumes "caller \<noteq> recipient" and "caller \<noteq> []" and "recipient \<noteq> []"
    and "Atoi amount = Some n" and "0 < n"
    and "map_of (state stub) caller = Some v" and "Atoi v = Some b" and "n \<le> b"
    and "Atoi (case map_of (state stub) recipient of None \<Rightarrow> ''0'' | Some rv \<Rightarrow> rv) = Some r"
    and "r + n < 2 ^ 63"
    and "fault stub (CallGetState caller) = None"
    and "fault stub (CallGetState recipient) = None"
    and "fault stub (CallPutState caller) = None"
    and "fault stub (CallPutState recipient) = None"
    and "fault stub (CallSetEvent ''transferEvent'') = None"
  shows "fst (transfer stub [caller, recipient, amount])
           = Returns (shim_Success (Some ''transfer Success''))
       \<and> map_of (state (snd (transfer stub [caller, recipient, amount]))) caller
           = Some (Itoa (b - n))
       \<and> map_of (state (snd (transfer stub [caller, recipient, amount]))) recipient
           = Some (Itoa (r + n))"
proof -
  have rb: "- (2 ^ 63) \<le> b \<and> b < 2 ^ 63" using assms(7) by (rule Atoi_range)
  have rr: "- (2 ^ 63) \<le> r \<and> r < 2 ^ 63" using assms(9) by (rule Atoi_range)
  have c: "int64 (b - n) = b - n" using rb assms(5,8) by (intro int64_id) auto
  have r: "int64 (r + n) = r + n" using rr assms(5,10) by (intro int64_id) auto
  show ?thesis
    using assms c r by (simp add: transfer_simps Itoa_not_Nil update_conv' split: option.splits)
qed

text \<open>Read back as integers, the two balances then add up to what they added up to
  before.\<close>

lemma transfer_conserves:
  assumes "caller \<noteq> recipient" and "caller \<noteq> []" and "recipient \<noteq> []"
    and "Atoi amount = Some n" and "0 < n"
    and "map_of (state stub) caller = Some v" and "Atoi v = Some b" and "n \<le> b"
    and "Atoi (case map_of (state stub) recipient of None \<Rightarrow> ''0'' | Some rv \<Rightarrow> rv) = Some r"
    and "r + n < 2 ^ 63"
    and "fault stub (CallGetState caller) = None"
    and "fault stub (CallGetState recipient) = None"
    and "fault stub (CallPutState caller) = None"
    and "fault stub (CallPutState recipient) = None"
    and "fault stub (CallSetEvent ''transferEvent'') = None"
  shows "\<exists>cv rv cb rb.
           map_of (state (snd (transfer stub [caller, recipient, amount]))) caller = Some cv
         \<and> map_of (state (snd (transfer stub [caller, recipient, amount]))) recipient = Some rv
         \<and> Atoi cv = Some cb \<and> Atoi rv = Some rb \<and> cb + rb = b + r"
proof -
  have rb: "- (2 ^ 63) \<le> b \<and> b < 2 ^ 63" using assms(7) by (rule Atoi_range)
  have rr: "- (2 ^ 63) \<le> r \<and> r < 2 ^ 63" using assms(9) by (rule Atoi_range)
  have c: "Atoi (Itoa (b - n)) = Some (b - n)" using rb assms(5,8) by (intro Atoi_Itoa) auto
  have r: "Atoi (Itoa (r + n)) = Some (r + n)" using rr assms(5,10) by (intro Atoi_Itoa) auto
  have "(b - n) + (r + n) = b + r" by simp
  then show ?thesis using transfer_moves[OF assms] c r by blast
qed

text \<open>
  C1. Claim: after every transfer that returns success, the stored balances of the
  caller and of the recipient add up to what they added up to before. The code does
  not keep this: it reads both balances, then writes the caller's and then the
  recipient's, so when the caller is the recipient the second write wins and the
  address gains the amount. With 10 stored for \<open>alice\<close>, a transfer of 3 from \<open>alice\<close> to
  \<open>alice\<close> returns success and leaves 13.
\<close>

theorem transfer_self_mints:
  "fst (transfer (ledger [(''alice'', ''10'')]) [''alice'', ''alice'', ''3''])
     = Returns (shim_Success (Some ''transfer Success''))
   \<and> state (snd (transfer (ledger [(''alice'', ''10'')]) [''alice'', ''alice'', ''3'']))
     = [(''alice'', ''13'')]"
  by (simp add: transfer_simps run_simps)

text \<open>
  C2. Claim: a caller whose key is absent is read as 0 and so rejected by the check
  of sufficient funds. The code gives the recipient this default, not the caller:
  the absent caller's value is the empty string, \<^verbatim>\<open>Atoi\<close> fails on it, and the
  transfer is rejected with "caller amount must be integer".
\<close>

theorem transfer_absent_caller:
  "transfer (ledger []) [''alice'', ''bob'', ''5'']
     = (Returns (shim_Error ''caller amount must be integer''), ledger [])"
  by (simp add: transfer_simps run_simps)

text \<open>The same for every absent caller and every positive amount.\<close>

lemma transfer_absent_caller_general:
  assumes "Atoi amount = Some n" and "0 < n"
    and "map_of (state stub) caller = None"
    and "fault stub (CallGetState caller) = None"
  shows "transfer stub [caller, recipient, amount]
           = (Returns (shim_Error ''caller amount must be integer''), stub)"
  using assms by (simp add: transfer_simps Atoi_def)

text \<open>
  C3. Claim: whenever the caller's stored balance is less than the amount, the
  transfer fails with the error of insufficient funds and writes nothing. For a
  caller whose value \<open>b\<close> is an integer below the amount \<open>n\<close>, with \<open>b - n\<close> inside the
  range of a 64-bit \<^verbatim>\<open>int\<close>, the transfer always fails and returns the stub as it was,
  whatever the recipient is. The error is "caller's balance is not sufficient" when
  the recipient's value is absent or an integer; the code parses the recipient's
  value before it checks the funds, so a recipient whose read fails or whose value
  is no integer gets the error of that step instead.
\<close>

theorem transfer_insufficient:
  assumes "Atoi amount = Some n" and "0 < n"
    and "map_of (state stub) caller = Some v" and "Atoi v = Some b"
    and "b < n" and "n - 2 ^ 63 \<le> b"
    and "fault stub (CallGetState caller) = None"
  shows "transfer stub [caller, recipient, amount]
           = (Returns (shim_Error
                (case fault stub (CallGetState recipient) of
                   Some err \<Rightarrow> ''failed to GetState, error: '' @ err
                 | None \<Rightarrow>
                     (case Atoi (case map_of (state stub) recipient of
                                   None \<Rightarrow> ''0'' | Some rv \<Rightarrow> rv) of
                        None \<Rightarrow> ''caller amount must be integer''
                      | Some r \<Rightarrow> ''caller's balance is not sufficient''))), stub)"
proof -
  have rb: "- (2 ^ 63) \<le> b \<and> b < 2 ^ 63" using assms(4) by (rule Atoi_range)
  have c: "int64 (b - n) = b - n" using rb assms(5,6) by (intro int64_id) auto
  show ?thesis
    using assms c by (simp add: transfer_simps split: option.splits)
qed

theorem transfer_insufficient_witness:
  "transfer (ledger [(''alice'', ''10'')]) [''alice'', ''bob'', ''11'']
     = (Returns (shim_Error ''caller's balance is not sufficient''), ledger [(''alice'', ''10'')])
   \<and> transfer (ledger [(''alice'', ''10''), (''bob'', ''5'')]) [''alice'', ''bob'', ''11'']
     = (Returns (shim_Error ''caller's balance is not sufficient''),
        ledger [(''alice'', ''10''), (''bob'', ''5'')])
   \<and> transfer (ledger [(''alice'', ''10''), (''bob'', ''ten'')]) [''alice'', ''bob'', ''11'']
     = (Returns (shim_Error ''caller amount must be integer''),
        ledger [(''alice'', ''10''), (''bob'', ''ten'')])"
  using transfer_insufficient
      [of "''11''" 11 "ledger [(''alice'', ''10'')]" "''alice''" "''10''" 10 "''bob''"]
    transfer_insufficient
      [of "''11''" 11 "ledger [(''alice'', ''10''), (''bob'', ''5'')]" "''alice''" "''10''" 10
         "''bob''"]
    transfer_insufficient
      [of "''11''" 11 "ledger [(''alice'', ''10''), (''bob'', ''ten'')]" "''alice''" "''10''" 10
         "''bob''"]
  by (simp add: run_simps)

text \<open>
  C3, as it is written, fails twice. With the smallest \<^verbatim>\<open>int\<close> stored for the
  caller, a transfer of 1 wraps to the largest \<^verbatim>\<open>int\<close>, passes the check, returns
  success and writes both keys. With a recipient whose value is not an integer (the
  key of the token's metadata is one), the transfer of 11 from a balance of 10 is
  rejected with "caller amount must be integer".
\<close>

theorem transfer_insufficient_counterexample:
  "fst (transfer (ledger [(''alice'', ''-9223372036854775808'')]) [''alice'', ''bob'', ''1''])
     = Returns (shim_Success (Some ''transfer Success''))
   \<and> state (snd (transfer (ledger [(''alice'', ''-9223372036854775808'')])
                [''alice'', ''bob'', ''1'']))
     = [(''alice'', ''9223372036854775807''), (''bob'', ''1'')]
   \<and> fst (transfer (ledger [(''alice'', ''10''), (''bob'', ''ten'')]) [''alice'', ''bob'', ''11''])
     = Returns (shim_Error ''caller amount must be integer'')"
  by (simp add: transfer_simps run_simps)

text \<open>
  C8. Claim: a transfer of \<open>n\<close> from an address to itself, with \<open>b\<close> stored and
  \<open>b - n \<ge> 0\<close>, returns success and leaves \<open>b + n\<close>. This holds as long as \<open>b + n\<close>
  fits a 64-bit \<^verbatim>\<open>int\<close>; beyond, the sum wraps and \<open>b + n - 2^64\<close> is stored. The
  theorem covers both cases, for a non-empty address and a stub whose calls succeed.
\<close>

theorem transfer_to_self:
  assumes "a \<noteq> []"
    and "map_of (state stub) a = Some v" and "Atoi v = Some b"
    and "Atoi amount = Some n" and "0 < n" and "0 \<le> b - n"
    and "fault stub (CallGetState a) = None"
    and "fault stub (CallPutState a) = None"
    and "fault stub (CallSetEvent ''transferEvent'') = None"
  shows "fst (transfer stub [a, a, amount]) = Returns (shim_Success (Some ''transfer Success''))
       \<and> map_of (state (snd (transfer stub [a, a, amount]))) a
           = Some (Itoa (if b + n < 2 ^ 63 then b + n else b + n - 2 ^ 64))"
proof -
  have rb: "- (2 ^ 63) \<le> b \<and> b < 2 ^ 63" using assms(3) by (rule Atoi_range)
  have rn: "- (2 ^ 63) \<le> n \<and> n < 2 ^ 63" using assms(4) by (rule Atoi_range)
  have c: "int64 (b - n) = b - n" using rb rn assms(5,6) by (intro int64_id) auto
  have r: "int64 (b + n) = (if b + n < 2 ^ 63 then b + n else b + n - 2 ^ 64)"
  proof (cases "b + n < 2 ^ 63")
    case True
    then show ?thesis using rb rn assms(5,6) by (simp add: int64_id)
  next
    case False
    then show ?thesis using rb rn by (simp add: int64_wrap_high)
  qed
  show ?thesis
    unfolding r[symmetric]
    using assms c by (simp add: transfer_simps Itoa_not_Nil update_conv')
qed

theorem transfer_to_self_witness:
  "fst (transfer (ledger [(''alice'', ''10'')]) [''alice'', ''alice'', ''7''])
     = Returns (shim_Success (Some ''transfer Success''))
   \<and> map_of (state (snd (transfer (ledger [(''alice'', ''10'')]) [''alice'', ''alice'', ''7''])))
       ''alice'' = Some ''17''"
  using transfer_to_self [of "''alice''" "ledger [(''alice'', ''10'')]" "''10''" 10 "''7''" 7]
  by (simp add: run_simps)

text \<open>C8, as it is written, fails at the largest \<^verbatim>\<open>int\<close>: one more wraps to the
  smallest.\<close>

theorem transfer_to_self_overflow:
  "fst (transfer (ledger [(''alice'', ''9223372036854775807'')]) [''alice'', ''alice'', ''1''])
     = Returns (shim_Success (Some ''transfer Success''))
   \<and> state (snd (transfer (ledger [(''alice'', ''9223372036854775807'')])
                [''alice'', ''alice'', ''1'']))
     = [(''alice'', ''-9223372036854775808'')]"
  by (simp add: transfer_simps run_simps)

section \<open>balanceOf\<close>

text \<open>
  C5. \<^verbatim>\<open>balanceOf\<close> answers with the stored bytes of the address, and with "0" when
  the key is absent; an absent key is a success. (The premise is that the read
  itself is answered: a failing \<^verbatim>\<open>GetState\<close> is an error of the stub, not an absent
  key.)
\<close>

theorem balanceOf_stored_or_zero:
  assumes "fault stub (CallGetState address) = None"
  shows "balanceOf stub [address]
           = (Returns (shim_Success
                (Some (case map_of (state stub) address of None \<Rightarrow> ''0'' | Some b \<Rightarrow> b))), stub)"
  using assms by (simp add: balanceOf_def GetState_def split: option.splits)

theorem balanceOf_stored_or_zero_witness:
  "balanceOf (ledger [(''alice'', ''1000'')]) [''bob'']
     = (Returns (shim_Success (Some ''0'')), ledger [(''alice'', ''1000'')])
   \<and> balanceOf (ledger [(''alice'', ''1000'')]) [''alice'']
     = (Returns (shim_Success (Some ''1000'')), ledger [(''alice'', ''1000'')])"
  using balanceOf_stored_or_zero [of "ledger [(''alice'', ''1000'')]" "''bob''"]
    balanceOf_stored_or_zero [of "ledger [(''alice'', ''1000'')]" "''alice''"]
  by (simp add: ledger_def noFault_def)

section \<open>The operations without a body\<close>

text \<open>
  C7. For every list of parameters and every stub, \<^verbatim>\<open>transferFrom\<close>,
  \<^verbatim>\<open>increaseAllowance\<close>, \<^verbatim>\<open>decreaseAllowance\<close>, \<^verbatim>\<open>mint\<close> and \<^verbatim>\<open>burn\<close> return success and
  leave the stub, and so every key of the world state, as it was.
\<close>

theorem noop_operations:
  "transferFrom stub params = (Returns (shim_Success None), stub)
   \<and> increaseAllowance stub params = (Returns (shim_Success None), stub)
   \<and> decreaseAllowance stub params = (Returns (shim_Success None), stub)
   \<and> mint stub params = (Returns (shim_Success None), stub)
   \<and> burn stub params = (Returns (shim_Success None), stub)"
  by (simp add: transferFrom_def increaseAllowance_def decreaseAllowance_def mint_def burn_def)

text \<open>The same through the dispatch of \<^verbatim>\<open>Invoke\<close>.\<close>

lemma Invoke_placeholders:
  "Invoke stub ''transferFrom'' params = (Returns (shim_Success None), stub)
   \<and> Invoke stub ''increaseAllowance'' params = (Returns (shim_Success None), stub)
   \<and> Invoke stub ''decreaseAllowance'' params = (Returns (shim_Success None), stub)
   \<and> Invoke stub ''mint'' params = (Returns (shim_Success None), stub)
   \<and> Invoke stub ''burn'' params = (Returns (shim_Success None), stub)"
  by (simp add: Invoke_def transferFrom_def increaseAllowance_def decreaseAllowance_def
      mint_def burn_def)

section \<open>Errors of the stub\<close>

text \<open>\<^verbatim>\<open>Init\<close> and \<^verbatim>\<open>transfer\<close> report a failing \<^verbatim>\<open>PutState\<close>.\<close>

lemma Init_reports_PutState:
  assumes "ParseUint amount = Some n"
    and "tokenName \<noteq> []" and "symbol \<noteq> []" and "owner \<noteq> []"
    and "fault stub (CallPutState tokenName) = Some err"
  shows "Init stub [tokenName, symbol, owner, amount]
           = (Returns (shim_Error (''failed to PutState, error: '' @ err)), stub)"
  using assms by (simp add: Init_def PutState_def Let_def)

lemma transfer_reports_PutState:
  assumes "Atoi amount = Some n" and "0 < n"
    and "map_of (state stub) caller = Some v" and "Atoi v = Some b" and "n \<le> b"
    and "Atoi (case map_of (state stub) recipient of None \<Rightarrow> ''0'' | Some rv \<Rightarrow> rv) = Some r"
    and "caller \<noteq> []"
    and "fault stub (CallGetState caller) = None"
    and "fault stub (CallGetState recipient) = None"
    and "fault stub (CallPutState caller) = Some err"
  shows "transfer stub [caller, recipient, amount]
           = (Returns (shim_Error (''failed to PutState of caller, error: '' @ err)), stub)"
proof -
  have rb: "- (2 ^ 63) \<le> b \<and> b < 2 ^ 63" using assms(4) by (rule Atoi_range)
  have c: "int64 (b - n) = b - n" using rb assms(2,5) by (intro int64_id) auto
  show ?thesis
    using assms c by (simp add: transfer_simps split: option.splits)
qed

text \<open>\<^verbatim>\<open>allowance\<close> does not: whatever \<^verbatim>\<open>PutState\<close> answers, it returns success.\<close>

lemma allowance_ignores_PutState:
  assumes "length params = 3"
    and "fault stub (CallPutState (fst (CreateCompositeKey ''insurance'' [params ! 0, params ! 1])))
           = Some err"
  shows "allowance stub params = (Returns (shim_Success None), stub)"
  using assms by (simp add: allowance_def PutState_def Let_def)

text \<open>
  C4. Claim: every failure of a read or a write of the state store reaches the
  caller as an error, and \<^verbatim>\<open>allowance\<close> in particular reports a failure of
  \<^verbatim>\<open>CreateCompositeKey\<close> or of \<^verbatim>\<open>PutState\<close>. The code of \<^verbatim>\<open>allowance\<close> drops both
  errors. With an id that holds U+0000, \<^verbatim>\<open>CreateCompositeKey\<close> fails and gives the
  empty key, \<^verbatim>\<open>PutState\<close> refuses the empty key, nothing is stored, and \<^verbatim>\<open>allowance\<close>
  returns success.
\<close>

theorem allowance_swallows_errors:
  "snd (CreateCompositeKey ''insurance'' [''alice'' @ [NUL], ''bob''])
     = Some (''input contain unicode U+0000 starting at position [5]. ''
             @ ''U+0000 and U+10FFFF are not allowed in the input attribute of a composite key'')
   \<and> PutState (ledger []) (fst (CreateCompositeKey ''insurance'' [''alice'' @ [NUL], ''bob'']))
        ''50'' = Inl ''key must not be an empty string''
   \<and> allowance (ledger []) [''alice'' @ [NUL], ''bob'', ''50'']
     = (Returns (shim_Success None), ledger [])"
  by (simp add: allowance_def PutState_def key_simps)

section \<open>The number of parameters\<close>

text \<open>
  C9. Claim: \<^verbatim>\<open>allowance\<close> and \<^verbatim>\<open>approve\<close> check no length and index past the end of
  a short list, unlike every other operation, which checks the length first. The
  first half holds: \<^verbatim>\<open>allowance\<close> with fewer than three parameters and \<^verbatim>\<open>approve\<close>
  with none panic. The operations that check the length first are \<^verbatim>\<open>Init\<close>,
  \<^verbatim>\<open>totalSupply\<close>, \<^verbatim>\<open>balanceOf\<close> and \<^verbatim>\<open>transfer\<close>; the five operations without a body
  check nothing and read no parameter, so they return success for a list of any
  length.
\<close>

theorem arity_checks:
  "(length params < 3 \<longrightarrow> allowance stub params = (PanicIndexOutOfRange, stub))
   \<and> approve stub [] = (PanicIndexOutOfRange, stub)
   \<and> (length params \<noteq> 4 \<longrightarrow>
        Init stub params = (Returns (shim_Error ''incorrect number of parameter''), stub))
   \<and> (length params \<noteq> 1 \<longrightarrow>
        totalSupply stub params = (Returns (shim_Error ''incorrect number of parameter''), stub))
   \<and> (length params \<noteq> 1 \<longrightarrow>
        balanceOf stub params = (Returns (shim_Error ''incorrect number of parameters''), stub))
   \<and> (length params \<noteq> 3 \<longrightarrow>
        transfer stub params = (Returns (shim_Error ''incorrect number of parameters''), stub))
   \<and> transferFrom stub params = (Returns (shim_Success None), stub)
   \<and> increaseAllowance stub params = (Returns (shim_Success None), stub)
   \<and> decreaseAllowance stub params = (Returns (shim_Success None), stub)
   \<and> mint stub params = (Returns (shim_Success None), stub)
   \<and> burn stub params = (Returns (shim_Success None), stub)"
  by (simp add: allowance_def approve_def Init_def totalSupply_def balanceOf_def transfer_def
      transferFrom_def increaseAllowance_def decreaseAllowance_def mint_def burn_def)

theorem arity_checks_witness:
  "allowance (ledger []) [] = (PanicIndexOutOfRange, ledger [])
   \<and> approve (ledger []) [] = (PanicIndexOutOfRange, ledger [])
   \<and> Init (ledger []) [] = (Returns (shim_Error ''incorrect number of parameter''), ledger [])
   \<and> totalSupply (ledger []) []
       = (Returns (shim_Error ''incorrect number of parameter''), ledger [])
   \<and> balanceOf (ledger []) []
       = (Returns (shim_Error ''incorrect number of parameters''), ledger [])
   \<and> transfer (ledger []) []
       = (Returns (shim_Error ''incorrect number of parameters''), ledger [])"
  using arity_checks [of "[]" "ledger []"] by simp

text \<open>C9, as it is written, fails at the operations without a body: \<^verbatim>\<open>transferFrom\<close>
  accepts a list of no parameter and a list of one, so it checks no length.\<close>

theorem placeholders_check_no_arity:
  "transferFrom (ledger []) [] = (Returns (shim_Success None), ledger [])
   \<and> transferFrom (ledger []) [''x''] = (Returns (shim_Success None), ledger [])"
  by (simp add: transferFrom_def)

section \<open>A run of the whole program\<close>

text \<open>
  \<^verbatim>\<open>Init\<close> with the amount 1000 for the owner alice, then the two queries and a
  transfer of 300 to bob: the metadata written by \<^verbatim>\<open>Init\<close> is read back by
  \<^verbatim>\<open>totalSupply\<close>, the balances are 700 and 300, and the event is set.
\<close>

lemmas json_simps =
  Marshal_ERC20Metadata_def jsonKey_def jsonString_def encodeString.simps htmlSafe_def
  Unmarshal_ERC20Metadata_def stateBeginStringOrEmpty_def stateBeginString_def
  stateInString_def popParseState_def punctuation_def storeValue_def lookupField_def
  storeString_def storeLiteral_def unquoteBytes.simps caseMask_def backslash_def

lemma Init_then_queries:
  "fst (Init (ledger []) [''Tok'', ''TK'', ''alice'', ''1000'']) = Returns (shim_Success None)
   \<and> fst (totalSupply (snd (Init (ledger []) [''Tok'', ''TK'', ''alice'', ''1000''])) [''Tok''])
       = Returns (shim_Success (Some ''1000''))
   \<and> fst (balanceOf (snd (Init (ledger []) [''Tok'', ''TK'', ''alice'', ''1000''])) [''alice''])
       = Returns (shim_Success (Some ''1000''))"
  by (simp add: Init_def totalSupply_def balanceOf_def GetState_def PutState_def string_of_def
      run_simps scan_simps json_simps)

lemma Init_then_transfer:
  "map_of (state (snd (transfer (snd (Init (ledger []) [''Tok'', ''TK'', ''alice'', ''1000'']))
                    [''alice'', ''bob'', ''300'']))) ''alice'' = Some ''700''
   \<and> map_of (state (snd (transfer (snd (Init (ledger []) [''Tok'', ''TK'', ''alice'', ''1000'']))
                    [''alice'', ''bob'', ''300'']))) ''bob'' = Some ''300''
   \<and> event (snd (transfer (snd (Init (ledger []) [''Tok'', ''TK'', ''alice'', ''1000'']))
                    [''alice'', ''bob'', ''300'']))
       = Some (''transferEvent'',
               Marshal_TransferEvent \<lparr>Sender = ''alice'', Recipient = ''bob'', Amount = 300\<rparr>)"
  by (simp add: Init_def PutState_def transfer_simps run_simps json_simps)

section \<open>One key space for the metadata and the balances\<close>

lemma digit_starts_no_object:
  assumes "isDigit c"
  shows "\<not> isSpace c \<and> c \<noteq> CHR ''{'' \<and> c \<noteq> CHR ''['' \<and> c \<noteq> CHR ''n'' \<and> c \<noteq> CHR ''t''
         \<and> c \<noteq> CHR ''f'' \<and> c \<noteq> dquote"
  using assms by (auto simp: isDigit_def isSpace_def dquote_def)

text \<open>A text that \<^verbatim>\<open>ParseUint\<close> accepts never unmarshals into the metadata: it is
  either no JSON (a leading zero) or a JSON number.\<close>

lemma Unmarshal_number:
  assumes "ParseUint data = Some n"
  shows "Unmarshal_ERC20Metadata data erc20
           = Inl (case checkValid data of Some err \<Rightarrow> err | None \<Rightarrow> topTypeError ''number'')"
proof -
  from assms obtain c cs where d: "data = c # cs" and c: "isDigit c"
    by (cases data) (auto simp: ParseUint_def split: if_splits)
  show ?thesis
    using digit_starts_no_object[OF c] d
    by (simp add: Unmarshal_ERC20Metadata_def split: option.splits)
qed

lemma Marshal_ERC20Metadata_not_Nil: "Marshal_ERC20Metadata erc20 \<noteq> []"
  by (simp add: Marshal_ERC20Metadata_def)

text \<open>What the scanner says of a string of digits: a zero followed by another digit
  is an error at that digit, everything else is a number.\<close>

lemma scan_error_stays: "step s = StError \<Longrightarrow> foldl scanByte s xs = s"
  by (induction xs) (simp_all add: scanByte_def)

lemma scan_digits:
  "list_all isDigit xs \<Longrightarrow>
     foldl scanByte \<lparr>step = St1, parseState = [], endTop = False, scanErr = None\<rparr> xs
       = \<lparr>step = St1, parseState = [], endTop = False, scanErr = None\<rparr>"
  by (induction xs) (simp_all add: scanByte_def state1_def)

lemma digit_is_no_syntax:
  assumes "isDigit c"
  shows "\<not> isSpace c \<and> c \<noteq> CHR ''{'' \<and> c \<noteq> CHR ''['' \<and> c \<noteq> dquote \<and> c \<noteq> CHR ''-''
         \<and> c \<noteq> CHR ''t'' \<and> c \<noteq> CHR ''f'' \<and> c \<noteq> CHR ''n'' \<and> c \<noteq> CHR ''.''
         \<and> c \<noteq> CHR ''e'' \<and> c \<noteq> CHR ''E'' \<and> c \<noteq> CHR 0x27 \<and> quoteRune c = [c]"
  using assms by (auto simp: isDigit_def isSpace_def dquote_def quoteRune_def)

lemma checkValid_digits:
  assumes "list_all isDigit (c # cs)"
  shows "checkValid (c # cs)
           = (if c = CHR ''0'' \<and> cs \<noteq> []
              then Some (''invalid character '' @ [CHR 0x27, hd cs, CHR 0x27]
                         @ '' after top-level value'')
              else None)"
proof (cases "c = CHR ''0''")
  case True
  show ?thesis
  proof (cases cs)
    case Nil
    then show ?thesis using True
      by (simp add: checkValid_def scanInit_def scanByte_def stateBeginValue_def state0_def
          stateEndValue_def stateEndTop_def isSpace_def dquote_def)
  next
    case (Cons d rest)
    then have d: "isDigit d" using assms by simp
    have "scanByte (scanByte scanInit (CHR ''0'')) d
            = \<lparr>step = StError, parseState = [], endTop = True,
               scanErr = Some (''invalid character '' @ [CHR 0x27, d, CHR 0x27]
                               @ '' after top-level value'')\<rparr>"
      using digit_is_no_syntax[OF d]
      by (simp add: scanInit_def scanByte_def stateBeginValue_def state0_def stateEndValue_def
          stateEndTop_def scanFail_def quoteChar_def isSpace_def dquote_def)
    then show ?thesis using True Cons
      by (simp add: checkValid_def scan_error_stays)
  qed
next
  case False
  have c: "isDigit c" and cs: "list_all isDigit cs" using assms by simp_all
  have "scanByte scanInit c = \<lparr>step = St1, parseState = [], endTop = False, scanErr = None\<rparr>"
    using digit_is_no_syntax[OF c] c False
    by (simp add: scanInit_def scanByte_def stateBeginValue_def)
  then have "foldl scanByte scanInit (c # cs)
               = \<lparr>step = St1, parseState = [], endTop = False, scanErr = None\<rparr>"
    using scan_digits[OF cs] by simp
  then show ?thesis using False
    by (simp add: checkValid_def scanByte_def state1_def state0_def stateEndValue_def
        stateEndTop_def isSpace_def isDigit_def)
qed

lemma Unmarshal_digits:
  assumes "ParseUint data = Some n"
  shows "Unmarshal_ERC20Metadata data erc20
           = Inl (if hd data = CHR ''0'' \<and> tl data \<noteq> []
                  then ''invalid character '' @ [CHR 0x27, data ! 1, CHR 0x27]
                       @ '' after top-level value''
                  else ''json: cannot unmarshal number into Go value of type main.ERC20Metadata'')"
proof -
  from assms obtain c cs where d: "data = c # cs" and a: "list_all isDigit (c # cs)"
    by (cases data) (auto simp: ParseUint_def split: if_splits)
  have h: "cs \<noteq> [] \<Longrightarrow> hd cs = cs ! 0" by (cases cs) simp_all
  show ?thesis
    using Unmarshal_number[OF assms, of erc20] checkValid_digits[OF a] d h
    by (simp add: topTypeError_def)
qed

text \<open>
  C10. \<^verbatim>\<open>Init\<close> writes the metadata under the token's name and then the owner's
  balance under the owner's address, in the same key space: the world state it
  leaves is the old one with the metadata put at the token's name and then the
  amount put at the owner's address. When the owner is another key, the token's name
  holds the metadata. When the owner is the token's name, the second write replaces
  the first: the key holds the amount, and a later \<^verbatim>\<open>totalSupply\<close> of the token fails
  in \<^verbatim>\<open>json.Unmarshal\<close>, with a syntax error for an amount with a leading zero and
  with a type error for every other amount.
\<close>

theorem Init_one_key_space:
  assumes "tokenName \<noteq> []" and "symbol \<noteq> []" and "owner \<noteq> []"
    and "ParseUint amount = Some n"
    and "fault stub (CallPutState tokenName) = None"
    and "fault stub (CallPutState owner) = None"
    and "fault stub (CallGetState tokenName) = None"
  shows "Init stub [tokenName, symbol, owner, amount]
           = (Returns (shim_Success None),
              stub\<lparr>state := AList.update owner amount
                (AList.update tokenName
                   (Marshal_ERC20Metadata
                      \<lparr>Name = tokenName, Symbol = symbol, Owner = owner, TotalSupply = n\<rparr>)
                   (state stub))\<rparr>)
       \<and> map_of (state (snd (Init stub [tokenName, symbol, owner, amount]))) tokenName
           = Some (if owner = tokenName then amount
                   else Marshal_ERC20Metadata
                          \<lparr>Name = tokenName, Symbol = symbol, Owner = owner, TotalSupply = n\<rparr>)
       \<and> map_of (state (snd (Init stub [tokenName, symbol, owner, amount]))) owner = Some amount
       \<and> (owner = tokenName \<longrightarrow>
            fst (totalSupply (snd (Init stub [tokenName, symbol, owner, amount])) [tokenName])
              = Returns (shim_Error (''failed to Unmarshal, error: ''
                  @ (if hd amount = CHR ''0'' \<and> tl amount \<noteq> []
                     then ''invalid character '' @ [CHR 0x27, amount ! 1, CHR 0x27]
                          @ '' after top-level value''
                     else ''json: cannot unmarshal number into Go value of type main.ERC20Metadata''))))"
proof -
  have a: "amount \<noteq> []" using assms(4) by (auto simp: ParseUint_def split: if_splits)
  have i: "Init stub [tokenName, symbol, owner, amount]
             = (Returns (shim_Success None),
                stub\<lparr>state := AList.update owner amount
                  (AList.update tokenName
                     (Marshal_ERC20Metadata
                        \<lparr>Name = tokenName, Symbol = symbol, Owner = owner, TotalSupply = n\<rparr>)
                     (state stub))\<rparr>)"
    using assms a by (simp add: Init_def PutState_def Let_def Marshal_ERC20Metadata_not_Nil)
  show ?thesis
    unfolding i using assms(7) Unmarshal_digits[OF assms(4)]
    by (simp add: totalSupply_def GetState_def string_of_def update_conv' Let_def)
qed

theorem Init_one_key_space_witness:
  "fst (Init (ledger []) [''Tok'', ''TK'', ''alice'', ''1000'']) = Returns (shim_Success None)
   \<and> map_of (state (snd (Init (ledger []) [''Tok'', ''TK'', ''alice'', ''1000'']))) ''Tok''
       = Some (''{'' @ [CHR 0x22] @ ''name'' @ [CHR 0x22] @ '':'' @ [CHR 0x22] @ ''Tok'' @ [CHR 0x22] @ '','' @ [CHR 0x22] @ ''symbol'' @ [CHR 0x22] @ '':'' @ [CHR 0x22] @ ''TK'' @ [CHR 0x22] @ '','' @ [CHR 0x22] @ ''owner'' @ [CHR 0x22] @ '':'' @ [CHR 0x22] @ ''alice'' @ [CHR 0x22] @ '','' @ [CHR 0x22] @ ''totalSupply'' @ [CHR 0x22] @ '':1000}'')
   \<and> map_of (state (snd (Init (ledger []) [''Tok'', ''TK'', ''alice'', ''1000'']))) ''alice''
       = Some ''1000''
   \<and> map_of (state (snd (Init (ledger []) [''Tok'', ''TK'', ''Tok'', ''1000'']))) ''Tok''
       = Some ''1000''
   \<and> fst (totalSupply (snd (Init (ledger []) [''Tok'', ''TK'', ''Tok'', ''1000''])) [''Tok''])
       = Returns (shim_Error
           ''failed to Unmarshal, error: json: cannot unmarshal number into Go value of type main.ERC20Metadata'')
   \<and> fst (totalSupply (snd (Init (ledger []) [''Tok'', ''TK'', ''Tok'', ''01''])) [''Tok''])
       = Returns (shim_Error
           (''failed to Unmarshal, error: invalid character '' @ [CHR 0x27] @ ''1'' @ [CHR 0x27]
            @ '' after top-level value''))"
  using Init_one_key_space [of "''Tok''" "''TK''" "''alice''" "''1000''" 1000 "ledger []"]
    Init_one_key_space [of "''Tok''" "''TK''" "''Tok''" "''1000''" 1000 "ledger []"]
    Init_one_key_space [of "''Tok''" "''TK''" "''Tok''" "''01''" 1 "ledger []"]
  by (auto simp add: ledger_def noFault_def ParseUint_def isDigit_def digitsValue_def json_simps
      FormatUint.simps dquote_def)

section \<open>allowance and approve\<close>

text \<open>A key of the range from \<open>p\<close> to \<open>p\<close> followed by anything starts with \<open>p\<close>.\<close>

lemma range_prefix:
  fixes p k e :: string
  shows "p \<le> k \<Longrightarrow> k < p @ e \<Longrightarrow> prefix p k"
proof (induction p arbitrary: k)
  case Nil
  then show ?case by simp
next
  case (Cons a p)
  show ?case
  proof (cases k)
    case Nil
    then show ?thesis using Cons.prems by simp
  next
    case (Cons b k')
    have 1: "a < b \<or> a = b \<and> p \<le> k'" using Cons.prems(1) local.Cons by simp
    have 2: "b < a \<or> b = a \<and> k' < p @ e" using Cons.prems(2) local.Cons by simp
    from 1 2 have "a = b" and "p \<le> k'" and "k' < p @ e" by auto
    then show ?thesis using Cons.IH local.Cons by simp
  qed
qed

lemma filter_none:
  assumes "\<And>x. x \<in> set xs \<Longrightarrow> \<not> P x"
  shows "filter P xs = []"
  using assms by (simp add: filter_empty_conv)

lemma filter_single:
  assumes "distinct (map fst xs)" and "(k, v) \<in> set xs" and "P (k, v)"
    and "\<And>k' v'. (k', v') \<in> set xs \<Longrightarrow> P (k', v') \<Longrightarrow> k' = k"
  shows "filter P xs = [(k, v)]"
  using assms
proof (induction xs)
  case Nil
  then show ?case by simp
next
  case (Cons x xs)
  obtain k0 v0 where x: "x = (k0, v0)" by (cases x)
  show ?case
  proof (cases "x = (k, v)")
    case True
    have notin: "k \<notin> fst ` set xs" using Cons.prems(1) True by simp
    have "filter P xs = []"
    proof (rule filter_none)
      fix y assume yin: "y \<in> set xs"
      obtain k' v' where y: "y = (k', v')" by (cases y)
      show "\<not> P y"
      proof
        assume "P y"
        then have "k' = k" using Cons.prems(4)[of k' v'] yin y by simp
        then have "k \<in> fst ` set xs" using yin y by force
        then show False using notin by simp
      qed
    qed
    then show ?thesis using True Cons.prems(3) by simp
  next
    case False
    then have in_xs: "(k, v) \<in> set xs" using Cons.prems(2) by simp
    have d: "k0 \<notin> fst ` set xs" using Cons.prems(1) x by simp
    have "k0 \<noteq> k"
    proof
      assume "k0 = k"
      then have "k0 \<in> fst ` set xs" using in_xs by force
      then show False using d by simp
    qed
    then have np: "\<not> P x" using Cons.prems(4)[of k0 v0] x by auto
    have dx: "distinct (map fst xs)" using Cons.prems(1) by simp
    have "filter P xs = [(k, v)]"
    proof (rule Cons.IH[OF dx in_xs Cons.prems(3)])
      fix k' v' assume "(k', v') \<in> set xs" and "P (k', v')"
      then show "k' = k" using Cons.prems(4)[of k' v'] by simp
    qed
    then show ?thesis using np by simp
  qed
qed


lemma Create_alice_bob:
  "CreateCompositeKey ''insurance'' [''alice'', ''bob''] = (aliceBobKey, None)"
  by (simp add: key_simps aliceBobKey_def)

lemma validate_insurance: "validateCompositeKeyAttribute ''insurance'' = None"
  by (simp add: key_simps)

lemma Create_partial:
  "CreateCompositeKey ''insurance'' [g]
     = (case validateCompositeKeyAttribute g of
          None \<Rightarrow> (insuranceNamespace @ g @ [NUL], None)
        | Some err \<Rightarrow> ([], Some err))"
  by (simp add: CreateCompositeKey_def validate_insurance insuranceNamespace_def
      split: option.splits)

lemma Split_alice_bob:
  "SplitCompositeKey aliceBobKey = Some (''insurance'', [''alice'', ''bob''])"
  by (simp add: SplitCompositeKey_def aliceBobKey_def NUL_def)

lemma validate_alice: "validateCompositeKeyAttribute ''alice'' = None"
  by (simp add: key_simps)

lemma validate_alice_NUL_bob:
  "validateCompositeKeyAttribute (''alice'' @ [NUL] @ ''bob'') \<noteq> None"
  by (simp add: key_simps)

lemma prefix_alice_bob:
  assumes "prefix (g @ [NUL]) (''alice'' @ [NUL] @ ''bob'' @ [NUL])"
  shows "g = ''alice'' \<or> g = ''alice'' @ [NUL] @ ''bob''"
proof -
  let ?T = "''alice'' @ [NUL] @ ''bob'' @ [NUL]"
  from assms obtain zs where z: "?T = (g @ [NUL]) @ zs" by (auto simp: prefix_def)
  have "length ?T = length ((g @ [NUL]) @ zs)" using z by simp
  then have l: "length g < 10" by simp
  have t: "take (length g) ?T = g" by (subst z) simp
  have n: "?T ! length g = NUL" by (subst z) (simp add: nth_append)
  from l have "length g = 0 \<or> length g = 1 \<or> length g = 2 \<or> length g = 3
      \<or> length g = 4 \<or> length g = 5 \<or> length g = 6 \<or> length g = 7
      \<or> length g = 8 \<or> length g = 9"
    by arith
  then show ?thesis using t n by (auto simp: NUL_def)
qed

lemma in_range_has_prefix:
  assumes "insuranceNamespace @ g @ [NUL] \<le> k"
    and "k < (insuranceNamespace @ g @ [NUL]) @ maxUnicodeRune"
  shows "prefix insuranceNamespace k \<and> prefix (insuranceNamespace @ g @ [NUL]) k"
proof -
  have p: "prefix (insuranceNamespace @ g @ [NUL]) k" using assms by (rule range_prefix)
  then have "prefix insuranceNamespace k" using append_prefixD by blast
  then show ?thesis using p by simp
qed

lemma keys_after_allowance:
  assumes "(k, v) \<in> set (AList.clearjunk (AList.update aliceBobKey ''50'' st))"
  shows "k = aliceBobKey \<or> k \<in> fst ` set st"
proof -
  have "k \<in> fst ` set (AList.clearjunk (AList.update aliceBobKey ''50'' st))"
    using assms by force
  then show ?thesis by (simp add: dom_clearjunk dom_update)
qed

lemma range_alice:
  assumes "\<forall>k \<in> fst ` set st. \<not> prefix insuranceNamespace k"
  shows "filter (\<lambda>(k, v). insuranceNamespace @ ''alice'' @ [NUL] \<le> k
            \<and> k < (insuranceNamespace @ ''alice'' @ [NUL]) @ maxUnicodeRune)
           (AList.clearjunk (AList.update aliceBobKey ''50'' st))
         = [(aliceBobKey, ''50'')]"
proof (rule filter_single)
  show "distinct (map fst (AList.clearjunk (AList.update aliceBobKey ''50'' st)))" by simp
next
  have "map_of (AList.clearjunk (AList.update aliceBobKey ''50'' st)) aliceBobKey = Some ''50''"
    by (simp add: map_of_clearjunk update_conv')
  then show "(aliceBobKey, ''50'') \<in> set (AList.clearjunk (AList.update aliceBobKey ''50'' st))"
    by (rule map_of_SomeD)
next
  show "case (aliceBobKey, ''50'') of (k, v) \<Rightarrow>
          insuranceNamespace @ ''alice'' @ [NUL] \<le> k
          \<and> k < (insuranceNamespace @ ''alice'' @ [NUL]) @ maxUnicodeRune"
    by (simp add: aliceBobKey_def insuranceNamespace_def maxUnicodeRune_def NUL_def)
next
  fix k' v'
  assume m: "(k', v') \<in> set (AList.clearjunk (AList.update aliceBobKey ''50'' st))"
    and r: "case (k', v') of (k, v) \<Rightarrow>
          insuranceNamespace @ ''alice'' @ [NUL] \<le> k
          \<and> k < (insuranceNamespace @ ''alice'' @ [NUL]) @ maxUnicodeRune"
  from r have "prefix insuranceNamespace k'" using in_range_has_prefix[of "''alice''" k'] by simp
  then have "k' \<notin> fst ` set st" using assms by blast
  then show "k' = aliceBobKey" using keys_after_allowance[OF m] by simp
qed

lemma range_other:
  assumes "\<forall>k \<in> fst ` set st. \<not> prefix insuranceNamespace k"
    and "g \<noteq> ''alice''" and "validateCompositeKeyAttribute g = None"
  shows "filter (\<lambda>(k, v). insuranceNamespace @ g @ [NUL] \<le> k
            \<and> k < (insuranceNamespace @ g @ [NUL]) @ maxUnicodeRune)
           (AList.clearjunk (AList.update aliceBobKey ''50'' st))
         = []"
proof (rule filter_none)
  fix x
  assume xin: "x \<in> set (AList.clearjunk (AList.update aliceBobKey ''50'' st))"
  obtain k' v' where x: "x = (k', v')" by (cases x)
  show "\<not> (case x of (k, v) \<Rightarrow> insuranceNamespace @ g @ [NUL] \<le> k
            \<and> k < (insuranceNamespace @ g @ [NUL]) @ maxUnicodeRune)"
  proof
    assume "case x of (k, v) \<Rightarrow> insuranceNamespace @ g @ [NUL] \<le> k
            \<and> k < (insuranceNamespace @ g @ [NUL]) @ maxUnicodeRune"
    then have p: "prefix insuranceNamespace k' \<and> prefix (insuranceNamespace @ g @ [NUL]) k'"
      using in_range_has_prefix[of g k'] x by simp
    then have "k' \<notin> fst ` set st" using assms(1) by blast
    then have "k' = aliceBobKey" using keys_after_allowance[of k' v' st] xin x by simp
    then have "prefix (insuranceNamespace @ g @ [NUL]) aliceBobKey" using p by simp
    then have "prefix (g @ [NUL]) (''alice'' @ [NUL] @ ''bob'' @ [NUL])"
      by (simp add: insuranceNamespace_def aliceBobKey_def)
    then have "g = ''alice'' @ [NUL] @ ''bob''" using prefix_alice_bob assms(2) by blast
    then show False using assms(3) validate_alice_NUL_bob by simp
  qed
qed

text \<open>The bytes \<^verbatim>\<open>json.Marshal\<close> writes for the list of the one entry (bob, "50").\<close>

lemma Marshal_bob_50:
  "Marshal_Insurances [\<lparr>InsuranceName = ''bob'', InsuranceAmount = ''50''\<rparr>]
     = ''[{'' @ [CHR 0x22] @ ''name'' @ [CHR 0x22] @ '':'' @ [CHR 0x22] @ ''bob'' @ [CHR 0x22] @ '','' @ [CHR 0x22] @ ''amount'' @ [CHR 0x22] @ '':'' @ [CHR 0x22] @ ''50'' @ [CHR 0x22] @ ''}]''"
  by (simp add: Marshal_Insurances_def Marshal_Insurance_def jsonKey_def jsonString_def
      encodeString.simps htmlSafe_def dquote_def)

text \<open>
  C6. From a world state without a key in the namespace \<^verbatim>\<open>insurance\<close>,
  \<^verbatim>\<open>allowance("alice", "bob", "50")\<close> and then \<^verbatim>\<open>approve("alice")\<close> answer with the JSON
  list of the one entry of name "bob" and amount "50". For every other granter \<open>g\<close>,
  \<^verbatim>\<open>approve(g)\<close> answers with the empty list, or with an error when \<open>g\<close> cannot be
  part of a composite key: nothing of alice's grant shows. (The write of the key and
  the range queries are answered.)
\<close>

theorem allowance_then_approve:
  assumes "\<forall>k \<in> fst ` set (state stub). \<not> prefix insuranceNamespace k"
    and "fault stub (CallPutState aliceBobKey) = None"
    and "\<forall>startKey endKey. fault stub (CallGetStateByRange startKey endKey) = None"
  shows "fst (allowance stub [''alice'', ''bob'', ''50'']) = Returns (shim_Success None)
       \<and> fst (approve (snd (allowance stub [''alice'', ''bob'', ''50''])) [''alice''])
           = Returns (shim_Success (Some (''[{'' @ [CHR 0x22] @ ''name'' @ [CHR 0x22] @ '':'' @ [CHR 0x22] @ ''bob'' @ [CHR 0x22] @ '','' @ [CHR 0x22] @ ''amount'' @ [CHR 0x22] @ '':'' @ [CHR 0x22] @ ''50'' @ [CHR 0x22] @ ''}]'')))
       \<and> (\<forall>g. g \<noteq> ''alice'' \<longrightarrow>
            (validateCompositeKeyAttribute g = None \<longrightarrow>
               fst (approve (snd (allowance stub [''alice'', ''bob'', ''50''])) [g])
                 = Returns (shim_Success (Some ''[]'')))
            \<and> (validateCompositeKeyAttribute g \<noteq> None \<longrightarrow>
                 (\<exists>err. fst (approve (snd (allowance stub [''alice'', ''bob'', ''50''])) [g])
                          = Returns (shim_Error (''error: '' @ err)))))"
proof -
  have k: "aliceBobKey \<noteq> []" by (simp add: aliceBobKey_def)
  have a: "allowance stub [''alice'', ''bob'', ''50'']
             = (Returns (shim_Success None),
                stub\<lparr>state := AList.update aliceBobKey ''50'' (state stub)\<rparr>)"
    using assms(2) k by (simp add: allowance_def Create_alice_bob PutState_def)
  have alice: "fst (approve (stub\<lparr>state := AList.update aliceBobKey ''50'' (state stub)\<rparr>)
                 [''alice''])
           = Returns (shim_Success (Some (Marshal_Insurances
               [\<lparr>InsuranceName = ''bob'', InsuranceAmount = ''50''\<rparr>])))"
    using assms(3) range_alice[OF assms(1)] validate_alice
    by (simp add: approve_def GetStateByPartialCompositeKey_def Create_partial
        GetStateByRange_def Split_alice_bob)
  have valid: "fst (approve (stub\<lparr>state := AList.update aliceBobKey ''50'' (state stub)\<rparr>) [g])
              = Returns (shim_Success (Some ''[]''))"
    if "g \<noteq> ''alice''" and "validateCompositeKeyAttribute g = None" for g
    using assms(3) range_other[OF assms(1) that] that(2)
    by (simp add: approve_def GetStateByPartialCompositeKey_def Create_partial
        GetStateByRange_def Marshal_Insurances_def)
  have invalid: "\<exists>err. fst (approve (stub\<lparr>state := AList.update aliceBobKey ''50'' (state stub)\<rparr>)
                           [g])
              = Returns (shim_Error (''error: '' @ err))"
    if "validateCompositeKeyAttribute g \<noteq> None" for g
  proof -
    from that obtain e where "validateCompositeKeyAttribute g = Some e" by auto
    then have "fst (approve (stub\<lparr>state := AList.update aliceBobKey ''50'' (state stub)\<rparr>) [g])
                 = Returns (shim_Error (''error: '' @ e))"
      by (simp add: approve_def GetStateByPartialCompositeKey_def Create_partial)
    then show ?thesis by blast
  qed
  have bytes: "fst (approve (stub\<lparr>state := AList.update aliceBobKey ''50'' (state stub)\<rparr>)
                 [''alice''])
           = Returns (shim_Success (Some (''[{'' @ [CHR 0x22] @ ''name'' @ [CHR 0x22] @ '':'' @ [CHR 0x22] @ ''bob'' @ [CHR 0x22] @ '','' @ [CHR 0x22] @ ''amount'' @ [CHR 0x22] @ '':'' @ [CHR 0x22] @ ''50'' @ [CHR 0x22] @ ''}]'')))"
    using alice unfolding Marshal_bob_50 .
  show ?thesis unfolding a using bytes valid invalid by simp
qed

theorem allowance_then_approve_witness:
  "fst (allowance (ledger [(''alice'', ''1000'')]) [''alice'', ''bob'', ''50''])
     = Returns (shim_Success None)
   \<and> fst (approve (snd (allowance (ledger [(''alice'', ''1000'')]) [''alice'', ''bob'', ''50'']))
        [''alice''])
     = Returns (shim_Success (Some (''[{'' @ [CHR 0x22] @ ''name'' @ [CHR 0x22] @ '':'' @ [CHR 0x22] @ ''bob'' @ [CHR 0x22] @ '','' @ [CHR 0x22] @ ''amount'' @ [CHR 0x22] @ '':'' @ [CHR 0x22] @ ''50'' @ [CHR 0x22] @ ''}]'')))
   \<and> fst (approve (snd (allowance (ledger [(''alice'', ''1000'')]) [''alice'', ''bob'', ''50'']))
        [''carol''])
     = Returns (shim_Success (Some ''[]''))"
proof -
  have h: "\<forall>k \<in> fst ` set (state (ledger [(''alice'', ''1000'')])). \<not> prefix insuranceNamespace k"
    by (simp add: ledger_def insuranceNamespace_def NUL_def)
  have p: "fault (ledger [(''alice'', ''1000'')]) (CallPutState aliceBobKey) = None"
    by (simp add: ledger_def noFault_def)
  have r: "\<forall>startKey endKey.
      fault (ledger [(''alice'', ''1000'')]) (CallGetStateByRange startKey endKey) = None"
    by (simp add: ledger_def noFault_def)
  have c: "validateCompositeKeyAttribute ''carol'' = None" by (simp add: key_simps)
  show ?thesis
    using allowance_then_approve[OF h p r] c by simp
qed

end
